theory Spec2Isabelle
  imports Main "HOL-Library.Word"
begin

section \<open>Errors\<close>

text \<open>
  The error values the two packages declare or compare against
  (\<^verbatim>\<open>heart.ErrDead\<close>, \<^verbatim>\<open>gateway.ErrMissingForResume\<close>, \<^verbatim>\<open>gateway.ErrWSMaxTries\<close>,
  \<^verbatim>\<open>ErrInvalidSession\<close>), an error made by \<^verbatim>\<open>errors.New\<close>, and an error
  annotated by \<^verbatim>\<open>errors.Wrap\<close>. A Go \<^verbatim>\<open>error\<close> that may be nil is an
  \<open>error option\<close>; \<open>None\<close> is nil.
\<close>

datatype error =
    ErrDead
  | ErrMissingForResume
  | ErrWSMaxTries
  | ErrInvalidSession
  | New string
  | Wrapped error string

text \<open>
  \<^verbatim>\<open>errors.Wrap(err, msg)\<close> of github.com/pkg/errors: it annotates a non-nil
  error and returns nil when \<^verbatim>\<open>err\<close> is nil.
\<close>

fun Wrap :: "error option \<Rightarrow> string \<Rightarrow> error option" where
  "Wrap None msg = None"
| "Wrap (Some e) msg = Some (Wrapped e msg)"

section \<open>Package heart: the pacemaker\<close>

text \<open>
  \<^verbatim>\<open>time.Duration\<close> and the \<^verbatim>\<open>unixnano\<close> cell of \<^verbatim>\<open>AtomicTime\<close> are Go
  \<^verbatim>\<open>int64\<close>: 64-bit words read as two's complement, with wrapping arithmetic.
\<close>

type_synonym int64 = "64 word"

text \<open>
  A channel made by \<^verbatim>\<open>make(chan T)\<close>, carrying the values communicated over it so
  far, oldest first. A channel field that is nil is \<open>None\<close>.
\<close>

datatype 'a chan = Chan "'a list"

fun communicated :: "'a chan option \<Rightarrow> 'a list" where
  "communicated None = []"
| "communicated (Some (Chan vs)) = vs"

record Pacemaker =
  Heartrate :: int64
  SentBeat :: int64
  EchoBeat :: int64
  stop :: "unit chan option"
  death :: "error option chan option"

text \<open>\<^verbatim>\<open>NewPacemaker\<close>: both channels start nil, both timestamps zero.\<close>

definition NewPacemaker :: "int64 \<Rightarrow> Pacemaker" where
  "NewPacemaker heartrate =
     \<lparr>Heartrate = heartrate, SentBeat = 0, EchoBeat = 0, stop = None, death = None\<rparr>"

text \<open>\<^verbatim>\<open>Echo\<close> stores the clock reading \<open>now\<close> (\<^verbatim>\<open>time.Now().UnixNano()\<close>).\<close>

definition Echo :: "int64 \<Rightarrow> Pacemaker \<Rightarrow> Pacemaker" where
  "Echo now p = p\<lparr>EchoBeat := now\<rparr>"

text \<open>
  \<^verbatim>\<open>Dead\<close>: false when either cell is zero, else the signed comparison
  \<^verbatim>\<open>sent-echo > int64(p.Heartrate)*2\<close>, both sides computed in \<^verbatim>\<open>int64\<close>.
\<close>

definition Dead :: "Pacemaker \<Rightarrow> bool" where
  "Dead p =
     (let echo = EchoBeat p; sent = SentBeat p in
      if echo = 0 \<or> sent = 0 then False
      else sint (Heartrate p * 2) < sint (sent - echo))"

text \<open>
  The liveness predicate as the specification words it, over the integers:
  dead iff \<open>sent > 0\<close>, \<open>echo > 0\<close> and \<open>sent - echo > 2 * rate\<close>.
\<close>

definition dead_spec :: "int \<Rightarrow> int \<Rightarrow> int \<Rightarrow> bool" where
  "dead_spec sent echo rate = (0 < sent \<and> 0 < echo \<and> 2 * rate < sent - echo)"

section \<open>Package heart: the loop and its goroutine\<close>

text \<open>
  What one pass through the loop of \<^verbatim>\<open>start\<close> meets: what \<^verbatim>\<open>p.Pace()\<close> returns; the
  clock reading stored in \<^verbatim>\<open>SentBeat\<close>; the reading of an \<^verbatim>\<open>Echo\<close> that another
  goroutine makes before \<^verbatim>\<open>Dead\<close> reads the cells, if there is one; and which case
  of the \<^verbatim>\<open>select\<close> fires.
\<close>

datatype wake = StopSignal | Tick

record beat =
  paced :: "error option"
  sent_at :: int64
  echoed :: "int64 option"
  woke :: wake

text \<open>
  How far a run has come: it returned a value, it is still going (the state is
  that of the loop with the passes given used up), or it panicked.
\<close>

datatype 's run = Returned "error option" 's | Running 's | Panicked

definition clocked :: "beat \<Rightarrow> Pacemaker \<Rightarrow> Pacemaker" where
  "clocked b p =
     (case echoed b of
        None \<Rightarrow> p\<lparr>SentBeat := sent_at b\<rparr>
      | Some now \<Rightarrow> Echo now (p\<lparr>SentBeat := sent_at b\<rparr>))"

text \<open>
  The loop body down to the \<^verbatim>\<open>select\<close>: \<^verbatim>\<open>Pace\<close>, whose error is returned;
  \<^verbatim>\<open>SentBeat.Set\<close>; \<^verbatim>\<open>Dead\<close>, which returns \<^verbatim>\<open>ErrDead\<close>. \<open>Running\<close> is the loop
  arrived at its \<^verbatim>\<open>select\<close>.
\<close>

definition pace_and_check :: "beat \<Rightarrow> Pacemaker \<Rightarrow> Pacemaker run" where
  "pace_and_check b p =
     (case paced b of
        Some err \<Rightarrow> Returned (Some err) p
      | None \<Rightarrow> if Dead (clocked b p) then Returned (Some ErrDead) (clocked b p)
                else Running (clocked b p))"

fun loop :: "beat list \<Rightarrow> Pacemaker \<Rightarrow> Pacemaker run" where
  "loop [] p = Running p"
| "loop (b # bs) p =
     (case pace_and_check b p of
        Running p' \<Rightarrow> (case woke b of StopSignal \<Rightarrow> Returned None p' | Tick \<Rightarrow> loop bs p')
      | Returned v p' \<Rightarrow> Returned v p'
      | Panicked \<Rightarrow> Panicked)"

text \<open>
  \<^verbatim>\<open>start\<close> of the pacemaker: \<^verbatim>\<open>time.NewTicker\<close> panics on a duration that is not
  positive; then \<^verbatim>\<open>Echo\<close> with the clock reading \<open>now\<close>; then the loop.
\<close>

definition start_pacemaker :: "int64 \<Rightarrow> beat list \<Rightarrow> Pacemaker \<Rightarrow> Pacemaker run" where
  "start_pacemaker now bs p =
     (if sint (Heartrate p) \<le> 0 then Panicked else loop bs (Echo now p))"

text \<open>A value sent on a channel and received: it joins the channel's record.\<close>

fun chan_send :: "'a \<Rightarrow> 'a chan option \<Rightarrow> 'a chan option" where
  "chan_send v None = None"
| "chan_send v (Some (Chan vs)) = Some (Chan (vs @ [v]))"

text \<open>
  How far the goroutine of \<^verbatim>\<open>StartAsync\<close> has come: \<^verbatim>\<open>start\<close> has not returned; \<^verbatim>\<open>start\<close>
  has returned a value and the goroutine is in its send \<^verbatim>\<open>p.death <- v\<close> on the
  unbuffered channel, which no receiver has taken; the send has been received,
  \<^verbatim>\<open>p.stop\<close> is nil and \<^verbatim>\<open>wg.Done()\<close> is called; or \<^verbatim>\<open>start\<close> panicked. Each carries
  the pacemaker and the counter of the optional wait-group.
\<close>

datatype goroutine =
  Looping Pacemaker "nat option"
| Offering "error option" Pacemaker "nat option"
| Finished "error option" Pacemaker "nat option"
| Crashed

text \<open>
  \<^verbatim>\<open>StartAsync\<close> of the pacemaker with the goroutine it starts, run to the end of the
  passes given: both channels made, the optional wait-group raised; then in the
  goroutine \<^verbatim>\<open>p.death <- p.start()\<close>. \<open>received\<close> says whether some goroutine
  receives from the death channel: if none does, the goroutine stays in the send,
  with \<^verbatim>\<open>p.stop\<close> as it was and the wait-group not lowered; if one does,
  \<^verbatim>\<open>p.stop = nil\<close> and \<^verbatim>\<open>wg.Done()\<close> follow.
\<close>

definition StartAsync_pacemaker ::
  "int64 \<Rightarrow> beat list \<Rightarrow> bool \<Rightarrow> nat option \<Rightarrow> Pacemaker \<Rightarrow> goroutine" where
  "StartAsync_pacemaker now bs received wg p =
     (let p0 = p\<lparr>death := Some (Chan []), stop := Some (Chan [])\<rparr>;
          wg0 = map_option Suc wg
      in case start_pacemaker now bs p0 of
           Returned v p1 \<Rightarrow>
             if received
             then Finished v (p1\<lparr>death := chan_send v (death p1), stop := None\<rparr>)
                    (map_option (\<lambda>n. n - 1) wg0)
             else Offering v p1 wg0
         | Running p1 \<Rightarrow> Looping p1 wg0
         | Panicked \<Rightarrow> Crashed)"

text \<open>
  The goroutine and a caller of \<^verbatim>\<open>Stop\<close> side by side. The goroutine is at
  \<^verbatim>\<open>p.Pace()\<close>, at the \<^verbatim>\<open>select\<close>, at \<^verbatim>\<open>p.death <- v\<close> with \<^verbatim>\<open>start\<close> returned, at
  \<^verbatim>\<open>p.stop = nil\<close>, or past it. A call of \<^verbatim>\<open>Stop\<close> has been entered, is in its send
  \<^verbatim>\<open>p.stop <- struct{}{}\<close>, or has returned.
\<close>

datatype position = Pacing | Selecting | Dying "error option" | Clearing | Gone

datatype call = Entered | Sending | Left

text \<open>
  \<^verbatim>\<open>Stop\<close>: with \<^verbatim>\<open>p.stop\<close> nil the call returns; otherwise it sends on the
  unbuffered channel, and stays in the send until a receive on \<^verbatim>\<open>p.stop\<close> meets it.
\<close>

definition Stop :: "Pacemaker \<Rightarrow> call" where
  "Stop p = (if stop p \<noteq> None then Sending else Left)"

record world =
  pacer :: Pacemaker
  at :: position
  stopper :: call

text \<open>
  One step of either side. The only receive on \<^verbatim>\<open>p.stop\<close> is the \<^verbatim>\<open>select\<close> of the
  loop. The send on \<^verbatim>\<open>p.death\<close> completes when some goroutine receives, which
  may be never. \<^verbatim>\<open>Echo\<close> may be called by another goroutine at any time.
\<close>

inductive step :: "world \<Rightarrow> world \<Rightarrow> bool" where
  pace_on: "at w = Pacing \<Longrightarrow> pace_and_check b (pacer w) = Running p'
     \<Longrightarrow> step w (w\<lparr>pacer := p', at := Selecting\<rparr>)"
| pace_return: "at w = Pacing \<Longrightarrow> pace_and_check b (pacer w) = Returned v p'
     \<Longrightarrow> step w (w\<lparr>pacer := p', at := Dying v\<rparr>)"
| tick: "at w = Selecting \<Longrightarrow> step w (w\<lparr>at := Pacing\<rparr>)"
| stop_received: "at w = Selecting \<Longrightarrow> stopper w = Sending
     \<Longrightarrow> step w (w\<lparr>at := Dying None, stopper := Left\<rparr>)"
| death_received: "at w = Dying v
     \<Longrightarrow> step w (w\<lparr>pacer := (pacer w)\<lparr>death := chan_send v (death (pacer w))\<rparr>,
                   at := Clearing\<rparr>)"
| stop_cleared: "at w = Clearing
     \<Longrightarrow> step w (w\<lparr>pacer := (pacer w)\<lparr>stop := None\<rparr>, at := Gone\<rparr>)"
| stop_called: "stopper w = Entered \<Longrightarrow> step w (w\<lparr>stopper := Stop (pacer w)\<rparr>)"
| echo: "step w (w\<lparr>pacer := Echo now (pacer w)\<rparr>)"

text \<open>The loop has returned: the goroutine is past \<^verbatim>\<open>p.start()\<close>.\<close>

definition returned :: "position \<Rightarrow> bool" where
  "returned a = (a \<noteq> Pacing \<and> a \<noteq> Selecting)"

section \<open>Package gateway: data\<close>

text \<open>
  What a call does besides returning: \<open>Ret\<close> is a normal return, \<open>Panic\<close> a
  run-time panic (a nil pointer dereferenced, a misused lock), \<open>Block\<close> a wait on
  a lock, a channel or a wait-group that nothing in the modelled thread of control
  ends. A panic or a block anywhere ends the enclosing call the same way.
\<close>

datatype 'a outcome = Ret 'a | Panic | Block

definition andThen :: "'a outcome \<Rightarrow> ('a \<Rightarrow> 'b outcome) \<Rightarrow> 'b outcome" where
  "andThen m f = (case m of Ret x \<Rightarrow> f x | Panic \<Rightarrow> Panic | Block \<Rightarrow> Block)"

type_synonym bytes = "8 word list"

type_synonym OPCode = "8 word"

text \<open>\<^verbatim>\<open>wsutil.Event\<close>: one item of the channel that \<^verbatim>\<open>WS.Listen()\<close> returns.\<close>

record Event =
  Data :: bytes
  Error :: "error option"

text \<open>The envelope \<^verbatim>\<open>OP\<close>; \<open>OPData\<close> stays \<open>None\<close> when \<^verbatim>\<open>v\<close> is nil.\<close>

record OP =
  Code :: OPCode
  OPData :: "bytes option"

text \<open>What \<^verbatim>\<open>Driver.Marshal\<close> is given: the caller's value or the envelope.\<close>

datatype 'v any = Value 'v | Envelope OP

text \<open>
  \<^verbatim>\<open>sync.RWMutex\<close>, the \<^verbatim>\<open>available\<close> gate: one writer or any number of readers.
  A lock that cannot be taken blocks; releasing a lock that is not held is fatal.
\<close>

record RWMutex =
  writer :: bool
  readers :: nat

definition Lock :: "RWMutex \<Rightarrow> RWMutex outcome" where
  "Lock m = (if writer m \<or> 0 < readers m then Block else Ret (m\<lparr>writer := True\<rparr>))"

definition Unlock :: "RWMutex \<Rightarrow> RWMutex outcome" where
  "Unlock m = (if writer m then Ret (m\<lparr>writer := False\<rparr>) else Panic)"

definition RLock :: "RWMutex \<Rightarrow> RWMutex outcome" where
  "RLock m = (if writer m then Block else Ret (m\<lparr>readers := Suc (readers m)\<rparr>))"

definition RUnlock :: "RWMutex \<Rightarrow> RWMutex outcome" where
  "RUnlock m = (if readers m = 0 then Panic else Ret (m\<lparr>readers := readers m - 1\<rparr>))"

text \<open>
  Modelled from the spec: the gateway package's own \<^verbatim>\<open>Pacemaker\<close> type, whose
  declaration is not among the sources. Its state is the pacemaker state of the
  specification's data model (heartrate, sent_at, echo_at, stop, death), which is
  the state of \<^verbatim>\<open>heart.Pacemaker\<close>; its callbacks \<^verbatim>\<open>Pace\<close> and \<^verbatim>\<open>OnDead\<close> are fixed
  methods of the gateway. The struct literal of \<^verbatim>\<open>start\<close> sets the heartrate and
  leaves the rest zero, as \<open>NewPacemaker\<close> does.
\<close>

type_synonym GatewayPacemaker = Pacemaker

text \<open>
  The fields of \<^verbatim>\<open>Gateway\<close> that the functions below read or write. \<open>'ws\<close> is
  the websocket \<^verbatim>\<open>WS\<close>, whatever state the transport keeps. \<open>Pacemaker\<close> and
  \<open>waitGroup\<close> are pointers, \<open>paceDeath\<close> a channel: \<open>None\<close> is nil, and a
  wait-group is its counter. \<open>ErrorLog\<close> holds the arguments of the calls of
  \<^verbatim>\<open>g.ErrorLog\<close>, oldest first. \<open>fatalError\<close> holds the values queued in the
  channel \<^verbatim>\<open>make(chan error, 1)\<close>. \<open>handlers\<close> counts the \<^verbatim>\<open>go g.handleWS()\<close>
  statements executed.
\<close>

record 'ws Gateway =
  WS :: 'ws
  SessionID :: string
  Pacemaker :: "GatewayPacemaker option"
  ErrorLog :: "error option list"
  fatalError :: "error option list"
  available :: RWMutex
  paceDeath :: "error option chan option"
  waitGroup :: "nat option"
  handlers :: nat

text \<open>
  What the functions below call and the sources do not contain, each taken as a
  parameter, a function of the gateway state it is called on: the tunable
  \<^verbatim>\<open>WSRetries\<close>; the JSON driver's \<^verbatim>\<open>Marshal\<close>; the websocket (\<open>Recv\<close> is one
  receive from the channel of \<^verbatim>\<open>WS.Listen()\<close>); \<^verbatim>\<open>AssertEvent\<close> for the Hello frame,
  which yields the heartbeat interval; \<^verbatim>\<open>HandleEvent\<close>, \<^verbatim>\<open>Identify\<close>, \<^verbatim>\<open>Resume\<close>; the
  gateway pacemaker's \<^verbatim>\<open>StartAsync\<close> and \<^verbatim>\<open>Stop\<close>; and \<open>wgWait\<close>, what the
  background tasks do while \<^verbatim>\<open>waitGroup.Wait()\<close> waits on a wait-group that is not
  nil.
\<close>

record ('ws, 'v) deps =
  WSRetries :: int
  Marshal :: "'v any \<Rightarrow> error + bytes"
  Dial :: "'ws Gateway \<Rightarrow> (error option \<times> 'ws Gateway) outcome"
  Recv :: "'ws Gateway \<Rightarrow> (Event \<times> 'ws Gateway) outcome"
  WSSend :: "bytes \<Rightarrow> 'ws Gateway \<Rightarrow> (error option \<times> 'ws Gateway) outcome"
  WSClose :: "'ws Gateway \<Rightarrow> (error option \<times> 'ws Gateway) outcome"
  AssertEvent :: "Event \<Rightarrow> 'ws Gateway \<Rightarrow> ((error + int64) \<times> 'ws Gateway) outcome"
  HandleEvent :: "bytes \<Rightarrow> 'ws Gateway \<Rightarrow> (error option \<times> 'ws Gateway) outcome"
  Identify :: "'ws Gateway \<Rightarrow> (error option \<times> 'ws Gateway) outcome"
  Resume :: "'ws Gateway \<Rightarrow> (error option \<times> 'ws Gateway) outcome"
  StartAsync :: "'ws Gateway \<Rightarrow> (error option chan \<times> 'ws Gateway) outcome"
  PacemakerStop :: "'ws Gateway \<Rightarrow> 'ws Gateway outcome"
  wgWait :: "'ws Gateway \<Rightarrow> 'ws Gateway outcome"

definition logError :: "error option \<Rightarrow> 'ws Gateway \<Rightarrow> 'ws Gateway" where
  "logError e g = g\<lparr>ErrorLog := ErrorLog g @ [e]\<rparr>"

text \<open>
  \<^verbatim>\<open>waitGroup.Add\<close> and \<^verbatim>\<open>waitGroup.Done\<close>: a nil wait-group is dereferenced, and a
  counter below zero panics.
\<close>

definition wgAdd :: "nat \<Rightarrow> 'ws Gateway \<Rightarrow> 'ws Gateway outcome" where
  "wgAdd k g =
     (case waitGroup g of None \<Rightarrow> Panic | Some n \<Rightarrow> Ret (g\<lparr>waitGroup := Some (n + k)\<rparr>))"

definition wgDone :: "'ws Gateway \<Rightarrow> 'ws Gateway outcome" where
  "wgDone g =
     (case waitGroup g of
        None \<Rightarrow> Panic
      | Some n \<Rightarrow> if n = 0 then Panic else Ret (g\<lparr>waitGroup := Some (n - 1)\<rparr>))"

section \<open>Package gateway: operations\<close>

text \<open>
  \<^verbatim>\<open>GatewayURL\<close> declares a local struct \<^verbatim>\<open>Gateway\<close> and returns
  \<^verbatim>\<open>Gateway.URL, httputil.DefaultClient.RequestJSON(&Gateway, ...)\<close>. The Go
  specification (Order of evaluation) orders the calls of a return statement but
  leaves open whether a variable among its operands is read before or after them:
  both orders are behaviours of this source, so the order is an argument.
  \<open>RequestJSON\<close> is the request, which may fill the struct it is pointed at.
\<close>

record GatewayResponse =
  URL :: string

datatype eval_order = ReadThenCall | CallThenRead

definition GatewayURL ::
  "eval_order \<Rightarrow> (GatewayResponse \<Rightarrow> GatewayResponse \<times> error option) \<Rightarrow> string \<times> error option" where
  "GatewayURL order RequestJSON =
     (let Gateway = \<lparr>URL = []\<rparr> in
      case order of
        ReadThenCall \<Rightarrow>
          (let url = URL Gateway; (Gateway', err) = RequestJSON Gateway in (url, err))
      | CallThenRead \<Rightarrow>
          (let (Gateway', err) = RequestJSON Gateway; url = URL Gateway' in (url, err)))"

text \<open>
  \<^verbatim>\<open>Close\<close>: stop the pacemaker, wait on the wait-group (a nil
  \<^verbatim>\<open>*sync.WaitGroup\<close> is dereferenced there), clear it, close the websocket.
\<close>

definition Close ::
  "('ws, 'v) deps \<Rightarrow> 'ws Gateway \<Rightarrow> (error option \<times> 'ws Gateway) outcome" where
  "Close D g =
     andThen (PacemakerStop D g) (\<lambda>g1.
       case waitGroup g1 of
         None \<Rightarrow> Panic
       | Some n \<Rightarrow> andThen (wgWait D g1) (\<lambda>g2. WSClose D (g2\<lparr>waitGroup := None\<rparr>)))"

text \<open>The handshake \<^verbatim>\<open>start\<close>, statement by statement.\<close>

definition start ::
  "('ws, 'v) deps \<Rightarrow> 'ws Gateway \<Rightarrow> (error option \<times> 'ws Gateway) outcome" where
  "start D g =
     andThen (Recv D g) (\<lambda>(ev0, g1).
     andThen (AssertEvent D ev0 g1) (\<lambda>(hello, g2).
       case hello of
         Inl err \<Rightarrow> Ret (Wrap (Some err) ''Error at Hello'', g2)
       | Inr interval \<Rightarrow>
           andThen (StartAsync D (g2\<lparr>waitGroup := Some 0,
                                     Pacemaker := Some (NewPacemaker interval)\<rparr>)) (\<lambda>(c, g3).
           andThen (let g4 = g3\<lparr>paceDeath := Some c\<rparr> in
                    if SessionID g4 = []
                    then andThen (Identify D g4) (\<lambda>(err, g5). Ret (Wrap err ''Failed to identify'', g5))
                    else andThen (Resume D g4) (\<lambda>(err, g5). Ret (Wrap err ''Failed to resume'', g5)))
             (\<lambda>(err, g5).
               case err of
                 Some e \<Rightarrow> Ret (Some e, g5)
               | None \<Rightarrow>
                   andThen (Recv D g5) (\<lambda>(ev, g6).
                     case Error ev of
                       Some e \<Rightarrow> Ret (Wrap (Some e) ''First error'', g6)
                     | None \<Rightarrow>
                         andThen (HandleEvent D (Data ev) g6) (\<lambda>(err, g7).
                           case err of
                             Some e \<Rightarrow> Ret (Wrap (Some e) ''WS handler error on first event'', g7)
                           | None \<Rightarrow>
                               andThen (wgAdd 1 g7) (\<lambda>g8.
                                 Ret (None, g8\<lparr>handlers := Suc (handlers g8)\<rparr>))))))))"

text \<open>
  \<^verbatim>\<open>Start\<close> holds the gate in write mode around \<^verbatim>\<open>start\<close>; when \<^verbatim>\<open>start\<close> fails it
  calls \<^verbatim>\<open>Close\<close>, drops what \<^verbatim>\<open>Close\<close> returns, and returns the error of
  \<^verbatim>\<open>start\<close>. The deferred \<^verbatim>\<open>Unlock\<close> runs last.
\<close>

definition Start ::
  "('ws, 'v) deps \<Rightarrow> 'ws Gateway \<Rightarrow> (error option \<times> 'ws Gateway) outcome" where
  "Start D g =
     andThen (Lock (available g)) (\<lambda>m.
     andThen (start D (g\<lparr>available := m\<rparr>)) (\<lambda>(err, g1).
       case err of
         Some e \<Rightarrow>
           andThen (Close D g1) (\<lambda>(_, g2).
           andThen (Unlock (available g2)) (\<lambda>m'. Ret (Some e, g2\<lparr>available := m'\<rparr>)))
       | None \<Rightarrow>
           andThen (Unlock (available g1)) (\<lambda>m'. Ret (None, g1\<lparr>available := m'\<rparr>))))"

definition Open ::
  "('ws, 'v) deps \<Rightarrow> 'ws Gateway \<Rightarrow> (error option \<times> 'ws Gateway) outcome" where
  "Open D g =
     andThen (Dial D g) (\<lambda>(err, g1).
       case err of
         Some e \<Rightarrow> Ret (Wrap (Some e) ''Failed to reconnect'', g1)
       | None \<Rightarrow>
           andThen (Start D g1) (\<lambda>(err, g2).
             case err of Some e \<Rightarrow> Ret (Some e, g2) | None \<Rightarrow> Ret (None, g2)))"

text \<open>
  The loop of \<^verbatim>\<open>Reconnect\<close>, \<^verbatim>\<open>for i := 0; i < WSRetries; i++\<close>, from the counter
  \<open>i\<close> on; \<open>opn\<close> is what \<^verbatim>\<open>g.Open()\<close> does. \<open>seen\<close> records what each call of
  \<open>opn\<close> returned, oldest first, so that the calls can be counted; it steers
  nothing.
\<close>

function retry ::
  "('ws Gateway \<Rightarrow> (error option \<times> 'ws Gateway) outcome) \<Rightarrow> int \<Rightarrow> int \<Rightarrow> error option list
     \<Rightarrow> 'ws Gateway \<Rightarrow> (error option \<times> 'ws Gateway \<times> error option list) outcome" where
  "retry opn n i seen g =
     (if i < n then
        (case opn g of
           Ret (err, g1) \<Rightarrow>
             if err \<noteq> None \<and> err \<noteq> Some ErrInvalidSession
             then retry opn n (i + 1) (seen @ [err])
                    (logError (Wrap err ''Failed to open gateway'') g1)
             else Ret (None, g1, seen @ [err])
         | Panic \<Rightarrow> Panic
         | Block \<Rightarrow> Block)
      else Ret (Some ErrWSMaxTries, g, seen))"
  by pat_completeness auto
termination
  by (relation "measure (\<lambda>(opn, n, i, seen, g). nat (n - i))") auto

declare retry.simps [simp del]

text \<open>
  \<^verbatim>\<open>Reconnect\<close> with the dialling step as an argument: close first when
  \<^verbatim>\<open>paceDeath\<close> is not nil, then the loop. \<^verbatim>\<open>Reconnect\<close> itself dials with
  \<^verbatim>\<open>Open\<close>.
\<close>

definition ReconnectWith ::
  "('ws, 'v) deps \<Rightarrow> ('ws Gateway \<Rightarrow> (error option \<times> 'ws Gateway) outcome) \<Rightarrow> 'ws Gateway
     \<Rightarrow> (error option \<times> 'ws Gateway \<times> error option list) outcome" where
  "ReconnectWith D opn g =
     (if paceDeath g \<noteq> None
      then andThen (Close D g) (\<lambda>(_, g1). retry opn (WSRetries D) 0 [] g1)
      else retry opn (WSRetries D) 0 [] g)"

definition Reconnect ::
  "('ws, 'v) deps \<Rightarrow> 'ws Gateway \<Rightarrow> (error option \<times> 'ws Gateway) outcome" where
  "Reconnect D g = andThen (ReconnectWith D (Open D) g) (\<lambda>(err, g1, seen). Ret (err, g1))"

text \<open>
  What one \<^verbatim>\<open>select\<close> of \<^verbatim>\<open>eventLoop\<close> receives: the pacemaker's death value or an
  item of the websocket's channel. The loop runs over the items in the order they
  arrive; with none left it waits. A receive from a nil \<^verbatim>\<open>paceDeath\<close> is never
  ready, so a death value offered then is passed over.
\<close>

datatype received = PaceDeath "error option" | Inbound Event

fun eventLoop ::
  "('ws, 'v) deps \<Rightarrow> received list \<Rightarrow> 'ws Gateway \<Rightarrow> (error option \<times> 'ws Gateway) outcome" where
  "eventLoop D [] g = Block"
| "eventLoop D (PaceDeath err # rest) g =
     (if paceDeath g = None then eventLoop D rest g
      else (case err of
              None \<Rightarrow> Ret (None, g\<lparr>paceDeath := None\<rparr>)
            | Some e \<Rightarrow> Ret (Wrap (Some e) ''Pacemaker died, reconnecting'', g\<lparr>paceDeath := None\<rparr>)))"
| "eventLoop D (Inbound ev # rest) g =
     (case Error ev of
        Some e \<Rightarrow> Ret (Some e, g)
      | None \<Rightarrow>
          if length (Data ev) = 0
          then Ret (Some (New ''Event data is empty, reconnecting.''), g)
          else (case HandleEvent D (Data ev) g of
                  Ret (err, g1) \<Rightarrow>
                    (case err of
                       Some e \<Rightarrow> eventLoop D rest (logError (Wrap (Some e) ''WS handler error'') g1)
                     | None \<Rightarrow> eventLoop D rest g1)
                | Panic \<Rightarrow> Panic
                | Block \<Rightarrow> Block))"

text \<open>A send on \<^verbatim>\<open>fatalError\<close>, buffered once: it waits while a value is queued.\<close>

definition publishFatal :: "error option \<Rightarrow> 'ws Gateway \<Rightarrow> 'ws Gateway outcome" where
  "publishFatal v g =
     (if length (fatalError g) < 1 then Ret (g\<lparr>fatalError := fatalError g @ [v]\<rparr>) else Block)"

definition handleWS ::
  "('ws, 'v) deps \<Rightarrow> received list \<Rightarrow> 'ws Gateway \<Rightarrow> 'ws Gateway outcome" where
  "handleWS D inputs g =
     andThen (eventLoop D inputs g) (\<lambda>(err, g1).
     andThen (wgDone g1) (\<lambda>g2.
       if err \<noteq> None
       then andThen (Reconnect D (logError err g2)) (\<lambda>(r, g3).
              publishFatal (Wrap r ''Failed to reconnect'') g3)
       else Ret g2))"

text \<open>\<^verbatim>\<open>Wait\<close>: one receive from \<^verbatim>\<open>FatalError\<close>.\<close>

definition Wait :: "'ws Gateway \<Rightarrow> (error option \<times> 'ws Gateway) outcome" where
  "Wait g =
     (case fatalError g of [] \<Rightarrow> Block | v # vs \<Rightarrow> Ret (v, g\<lparr>fatalError := vs\<rparr>))"

text \<open>
  \<^verbatim>\<open>send\<close>: marshal \<^verbatim>\<open>v\<close> unless it is nil, marshal the envelope, then, with the gate
  held in read mode when \<^verbatim>\<open>lock\<close> is set, hand the bytes to \<^verbatim>\<open>WS.Send\<close>.
\<close>

definition send ::
  "('ws, 'v) deps \<Rightarrow> bool \<Rightarrow> OPCode \<Rightarrow> 'v option \<Rightarrow> 'ws Gateway
     \<Rightarrow> (error option \<times> 'ws Gateway) outcome" where
  "send D lock code v g =
     (case (case v of
              None \<Rightarrow> Inr \<lparr>Code = code, OPData = None\<rparr>
            | Some x \<Rightarrow>
                (case Marshal D (Value x) of
                   Inl err \<Rightarrow> Inl (Wrapped err ''Failed to encode v'')
                 | Inr b \<Rightarrow> Inr \<lparr>Code = code, OPData = Some b\<rparr>)) of
        Inl err \<Rightarrow> Ret (Some err, g)
      | Inr op \<Rightarrow>
          (case Marshal D (Envelope op) of
             Inl err \<Rightarrow> Ret (Some (Wrapped err ''Failed to encode payload''), g)
           | Inr b \<Rightarrow>
               if lock
               then andThen (RLock (available g)) (\<lambda>m.
                    andThen (WSSend D b (g\<lparr>available := m\<rparr>)) (\<lambda>(err, g1).
                    andThen (RUnlock (available g1)) (\<lambda>m'. Ret (err, g1\<lparr>available := m'\<rparr>))))
               else WSSend D b g))"

definition Send ::
  "('ws, 'v) deps \<Rightarrow> OPCode \<Rightarrow> 'v option \<Rightarrow> 'ws Gateway \<Rightarrow> (error option \<times> 'ws Gateway) outcome" where
  "Send D code v g = send D True code v g"

section \<open>The handshake beside the pacemaker\<close>

text \<open>
  \<^verbatim>\<open>start\<close> launches the pacemaker's goroutine before it sends Identify or Resume,
  so the two run side by side, both writing to the websocket. The frames written
  since the dial, by kind:
\<close>

datatype written = IdentifyFrame | ResumeFrame | HeartbeatFrame

text \<open>
  Where \<^verbatim>\<open>Start\<close> is after a dial: about to lock \<^verbatim>\<open>available\<close>; in \<^verbatim>\<open>start\<close> at
  the receive of the first item; past Hello, about to make the pacemaker and call
  \<^verbatim>\<open>StartAsync\<close>; about to call \<^verbatim>\<open>Identify\<close> or \<^verbatim>\<open>Resume\<close>; at the receive and the
  handling of the next item; in \<^verbatim>\<open>Close\<close> after \<^verbatim>\<open>start\<close> failed; returned nil;
  returned the error.
\<close>

datatype handshake =
  Dialed | AwaitHello | Spawning | Authenticating | AwaitReady | Closing | Started | Failed

text \<open>
  Modelled from the spec: the loop of the gateway's pacemaker (section 4.2: invoke
  pace, terminate if it fails, record the timestamp, terminate with the dead error
  if dead, wait for the earlier of a stop signal or the next tick), which is the
  loop of \<^verbatim>\<open>heart.Pacemaker\<close>. The goroutine does not exist before \<^verbatim>\<open>StartAsync\<close>, is
  about to call \<^verbatim>\<open>Pace\<close>, waits at its \<^verbatim>\<open>select\<close>, or has left the loop.
\<close>

datatype pacing = Unborn | Beating | Idle | Stopped

record attempt =
  gate :: RWMutex
  wire :: "written list"
  session :: string
  shake :: handshake
  pace :: pacing

definition after_dial :: "string \<Rightarrow> attempt" where
  "after_dial s =
     \<lparr>gate = \<lparr>writer = False, readers = 0\<rparr>, wire = [], session = s, shake = Dialed,
      pace = Unborn\<rparr>"

text \<open>The branch of \<^verbatim>\<open>start\<close> on \<^verbatim>\<open>g.SessionID == ""\<close>.\<close>

definition first_frame :: "string \<Rightarrow> written" where
  "first_frame s = (if s = [] then IdentifyFrame else ResumeFrame)"

text \<open>
  \<^verbatim>\<open>send\<close> takes the gate in read mode when its \<^verbatim>\<open>lock\<close> argument is set, and waits
  while a writer holds it.
\<close>

definition passes :: "bool \<Rightarrow> RWMutex \<Rightarrow> bool" where
  "passes lock m = (if lock then RLock m \<noteq> Block else True)"

text \<open>
  One step of either goroutine. \<^verbatim>\<open>Start\<close> locks \<^verbatim>\<open>available\<close>, and \<^verbatim>\<open>start\<close> receives
  the first item, which is a Hello or fails the attempt; it starts the pacemaker;
  it calls \<^verbatim>\<open>Identify\<close> or \<^verbatim>\<open>Resume\<close>, which fails before or after its frame is
  written, or succeeds; it receives and handles the next item, which fails the
  attempt or lets \<^verbatim>\<open>Start\<close> unlock and return nil. After a failure \<^verbatim>\<open>Start\<close> is in
  \<^verbatim>\<open>Close\<close>, which gets past \<^verbatim>\<open>Pacemaker.Stop\<close> and the wait-group no earlier than
  the pacemaker takes the stop signal at its \<^verbatim>\<open>select\<close> or has left its loop; \<^verbatim>\<open>Start\<close>
  then unlocks and returns the error.

  Modelled from the spec: \<^verbatim>\<open>Identify\<close> and \<^verbatim>\<open>Resume\<close> write one frame without taking
  the gate (section 4.4, and the comment on \<^verbatim>\<open>available\<close>), and \<^verbatim>\<open>Pace\<close>, which is
  \<^verbatim>\<open>Heartbeat\<close>, writes one Heartbeat frame through \<^verbatim>\<open>send\<close>. The parameter \<^verbatim>\<open>gated\<close>
  is the \<^verbatim>\<open>lock\<close> argument of that \<^verbatim>\<open>send\<close>, on which the specification has two
  answers: in section 4.4 the heartbeat of a pacer started inside the write
  section bypasses the gate, in the design notes the pacer takes the reader side
  like any other send. A beat that fails writes nothing and ends the loop; a beat
  after which the pacemaker is dead ends the loop as well.
\<close>

inductive move :: "bool \<Rightarrow> attempt \<Rightarrow> attempt \<Rightarrow> bool" for gated :: bool where
  lock: "shake a = Dialed \<Longrightarrow> Lock (gate a) = Ret m
     \<Longrightarrow> move gated a (a\<lparr>gate := m, shake := AwaitHello\<rparr>)"
| hello: "shake a = AwaitHello \<Longrightarrow> move gated a (a\<lparr>shake := Spawning\<rparr>)"
| no_hello: "shake a = AwaitHello \<Longrightarrow> move gated a (a\<lparr>shake := Closing\<rparr>)"
| spawn: "shake a = Spawning
     \<Longrightarrow> move gated a (a\<lparr>shake := Authenticating, pace := Beating\<rparr>)"
| authenticate: "shake a = Authenticating
     \<Longrightarrow> move gated a (a\<lparr>wire := wire a @ [first_frame (session a)], shake := AwaitReady\<rparr>)"
| authenticate_fails: "shake a = Authenticating \<Longrightarrow> move gated a (a\<lparr>shake := Closing\<rparr>)"
| authenticate_write_fails: "shake a = Authenticating
     \<Longrightarrow> move gated a (a\<lparr>wire := wire a @ [first_frame (session a)], shake := Closing\<rparr>)"
| ready: "shake a = AwaitReady \<Longrightarrow> Unlock (gate a) = Ret m
     \<Longrightarrow> move gated a (a\<lparr>gate := m, shake := Started\<rparr>)"
| not_ready: "shake a = AwaitReady \<Longrightarrow> move gated a (a\<lparr>shake := Closing\<rparr>)"
| close: "shake a = Closing \<Longrightarrow> pace a = Idle \<or> pace a = Stopped
     \<Longrightarrow> Unlock (gate a) = Ret m
     \<Longrightarrow> move gated a (a\<lparr>gate := m, shake := Failed, pace := Stopped\<rparr>)"
| beat: "pace a = Beating \<Longrightarrow> passes gated (gate a)
     \<Longrightarrow> move gated a (a\<lparr>wire := wire a @ [HeartbeatFrame], pace := Idle\<rparr>)"
| beat_dead: "pace a = Beating \<Longrightarrow> passes gated (gate a)
     \<Longrightarrow> move gated a (a\<lparr>wire := wire a @ [HeartbeatFrame], pace := Stopped\<rparr>)"
| beat_fails: "pace a = Beating \<Longrightarrow> move gated a (a\<lparr>pace := Stopped\<rparr>)"
| tick: "pace a = Idle \<Longrightarrow> move gated a (a\<lparr>pace := Beating\<rparr>)"

text \<open>
  What holds of every state of an attempt whose heartbeats take the gate: the
  first frame written is the one \<^verbatim>\<open>start\<close> chooses; \<^verbatim>\<open>Start\<close> holds the gate from its
  lock to its return; there is no pacemaker before \<^verbatim>\<open>StartAsync\<close>; a handshake past
  Identify or Resume has written a frame; after a failed \<^verbatim>\<open>Start\<close> the pacemaker has
  left its loop; a pacemaker at its \<^verbatim>\<open>select\<close> has written its heartbeat after
  another frame.
\<close>

definition in_order :: "attempt \<Rightarrow> bool" where
  "in_order a =
     ((\<forall>f rest. wire a = f # rest \<longrightarrow> f = first_frame (session a))
      \<and> (shake a \<in> {AwaitHello, Spawning, Authenticating, AwaitReady, Closing}
            \<longrightarrow> writer (gate a))
      \<and> (shake a \<in> {Dialed, AwaitHello, Spawning} \<longrightarrow> pace a = Unborn)
      \<and> (shake a \<in> {AwaitReady, Started} \<longrightarrow> wire a \<noteq> [])
      \<and> (shake a = Failed \<longrightarrow> pace a = Stopped)
      \<and> (pace a = Idle \<longrightarrow> wire a \<noteq> []))"

section \<open>A scripted transport\<close>

text \<open>
  \<^verbatim>\<open>NewGatewayWithDriver\<close> leaves the pacemaker, the wait-group and \<^verbatim>\<open>paceDeath\<close>
  nil, the session empty and \<^verbatim>\<open>fatalError\<close> with nothing queued.
\<close>

definition NewGateway :: "'ws \<Rightarrow> 'ws Gateway" where
  "NewGateway ws =
     \<lparr>WS = ws, SessionID = [], Pacemaker = None, ErrorLog = [], fatalError = [],
      available = \<lparr>writer = False, readers = 0\<rparr>, paceDeath = None, waitGroup = None,
      handlers = 0\<rparr>"

text \<open>
  One concrete set of collaborators, on which the functions above can be run: a
  websocket that delivers the frames of \<open>inbox\<close> in order, keeps the frames sent
  in \<open>outbox\<close> and counts the dials. A frame is tagged by its first byte: 10 is
  Hello, 0 a Ready dispatch that sets the session, 9 an invalid session. Identify
  writes the frame [2], Resume the frame [6]. The pacemaker's \<^verbatim>\<open>StartAsync\<close> adds its
  task to the wait-group; its \<^verbatim>\<open>Stop\<close> returns; the background tasks all finish
  while \<^verbatim>\<open>Close\<close> waits.
\<close>

record Wire =
  inbox :: "Event list"
  outbox :: "bytes list"
  dialed :: nat

definition wireSend :: "bytes \<Rightarrow> Wire Gateway \<Rightarrow> (error option \<times> Wire Gateway) outcome" where
  "wireSend b g = Ret (None, g\<lparr>WS := (WS g)\<lparr>outbox := outbox (WS g) @ [b]\<rparr>\<rparr>)"

definition scripted :: "(Wire, bytes) deps" where
  "scripted =
     \<lparr>WSRetries = 3,
      Marshal = (\<lambda>a. case a of
                   Value x \<Rightarrow> Inr x
                 | Envelope op \<Rightarrow> Inr (Code op # (case OPData op of None \<Rightarrow> [] | Some b \<Rightarrow> b))),
      Dial = (\<lambda>g. Ret (None, g\<lparr>WS := (WS g)\<lparr>dialed := Suc (dialed (WS g))\<rparr>\<rparr>)),
      Recv = (\<lambda>g. case inbox (WS g) of
                [] \<Rightarrow> Block
              | ev # evs \<Rightarrow> Ret (ev, g\<lparr>WS := (WS g)\<lparr>inbox := evs\<rparr>\<rparr>)),
      WSSend = wireSend,
      WSClose = (\<lambda>g. Ret (None, g)),
      AssertEvent = (\<lambda>ev g. Ret (case Error ev of
                                  Some e \<Rightarrow> Inl e
                                | None \<Rightarrow> if Data ev = [10] then Inr 41250
                                          else Inl (New ''unexpected op''), g)),
      HandleEvent = (\<lambda>d g. if d = [0] then Ret (None, g\<lparr>SessionID := ''S1''\<rparr>)
                           else if d = [9] then Ret (Some ErrInvalidSession, g\<lparr>SessionID := []\<rparr>)
                           else Ret (None, g)),
      Identify = wireSend [2],
      Resume = wireSend [6],
      StartAsync = (\<lambda>g. Ret (Chan [], g\<lparr>waitGroup := map_option Suc (waitGroup g)\<rparr>)),
      PacemakerStop = (\<lambda>g. Ret g),
      wgWait = (\<lambda>g. Ret (g\<lparr>waitGroup := Some 0\<rparr>))\<rparr>"

definition frame :: "bytes \<Rightarrow> Event" where
  "frame d = \<lparr>Data = d, Error = None\<rparr>"

definition broken :: "error \<Rightarrow> Event" where
  "broken e = \<lparr>Data = [], Error = Some e\<rparr>"


lemmas scripted_run =
  Open_def Start_def start_def Close_def andThen_def Lock_def Unlock_def RLock_def RUnlock_def
  scripted_def NewGateway_def broken_def frame_def handleWS_def Reconnect_def ReconnectWith_def
  wgAdd_def wgDone_def logError_def publishFatal_def Wait_def wireSend_def send_def Send_def

section \<open>The liveness predicate\<close>

lemma sint_sub_nonneg:
  fixes a b :: int64
  assumes "0 \<le> sint a" and "0 \<le> sint b"
  shows "sint (a - b) = sint a - sint b"
proof -
  have "sint a < 2 ^ 63" and "sint b < 2 ^ 63"
    using sint_lt [of a] sint_lt [of b] by simp_all
  with assms have "signed_take_bit 63 (sint a - sint b) = sint a - sint b"
    by (intro signed_take_bit_int_eq_self) simp_all
  then show ?thesis
    by (simp add: sint_word_ariths)
qed

lemma sint_double_in_range:
  fixes h :: int64
  assumes "- (2 ^ 62) \<le> sint h" and "sint h < 2 ^ 62"
  shows "sint (h * 2) = 2 * sint h"
proof -
  from assms have "signed_take_bit 63 (sint h * 2) = sint h * 2"
    by (intro signed_take_bit_int_eq_self) simp_all
  then show ?thesis
    by (simp add: sint_word_ariths)
qed

lemma sint_pos_iff:
  fixes a :: int64
  assumes "0 \<le> sint a"
  shows "0 < sint a \<longleftrightarrow> a \<noteq> 0"
proof -
  have "sint a = 0 \<longleftrightarrow> a = 0"
    by (rule signed_eq_0_iff)
  with assms show ?thesis by linarith
qed

text \<open>
  C1 (as stated): for every pair of timestamps and every heartrate, \<^verbatim>\<open>Dead\<close> is
  true iff \<open>sent > 0\<close>, \<open>echo > 0\<close> and \<open>sent - echo > 2 * heartrate\<close>. The code
  tests the cells against zero, not for positivity, and computes both sides in
  wrapping \<^verbatim>\<open>int64\<close>: with a heartrate of \<open>2^62\<close> ns the product wraps to
  \<open>-2^63\<close> and the pacemaker is dead although \<open>2 - 1 > 2^63\<close> is false; with two
  negative timestamps it is dead although neither is positive.
\<close>

theorem Dead_overflow_counterexample:
  "Dead \<lparr>Heartrate = 2 ^ 62, SentBeat = 2, EchoBeat = 1, stop = None, death = None\<rparr>
   \<and> \<not> dead_spec (sint (2 :: int64)) (sint (1 :: int64)) (sint (2 ^ 62 :: int64))
   \<and> Dead \<lparr>Heartrate = 1, SentBeat = - 1, EchoBeat = - 5, stop = None, death = None\<rparr>
   \<and> \<not> dead_spec (sint (- 1 :: int64)) (sint (- 5 :: int64)) (sint (1 :: int64))"
  by (simp add: Dead_def dead_spec_def)

text \<open>
  C1 (amended): \<^verbatim>\<open>Dead\<close> is false whenever either timestamp is zero; and for
  timestamps that are not negative and a heartrate \<open>h\<close> with \<open>-2^62 \<le> h < 2^62\<close>
  (so that neither the difference nor the doubling wraps), \<^verbatim>\<open>Dead\<close> is true
  iff \<open>sent > 0\<close>, \<open>echo > 0\<close> and \<open>sent - echo > 2 * heartrate\<close>.
\<close>

theorem Dead_iff_spec_in_range:
  "(EchoBeat p = 0 \<or> SentBeat p = 0 \<longrightarrow> \<not> Dead p)
   \<and> (0 \<le> sint (SentBeat p) \<and> 0 \<le> sint (EchoBeat p)
        \<and> - (2 ^ 62) \<le> sint (Heartrate p) \<and> sint (Heartrate p) < 2 ^ 62
      \<longrightarrow> (Dead p \<longleftrightarrow>
            dead_spec (sint (SentBeat p)) (sint (EchoBeat p)) (sint (Heartrate p))))"
proof (intro conjI impI)
  assume "EchoBeat p = 0 \<or> SentBeat p = 0"
  then show "\<not> Dead p"
    by (auto simp: Dead_def)
next
  assume range: "0 \<le> sint (SentBeat p) \<and> 0 \<le> sint (EchoBeat p)
    \<and> - (2 ^ 62) \<le> sint (Heartrate p) \<and> sint (Heartrate p) < 2 ^ 62"
  then have diff: "sint (SentBeat p - EchoBeat p) = sint (SentBeat p) - sint (EchoBeat p)"
    by (simp add: sint_sub_nonneg)
  from range have dbl: "sint (Heartrate p * 2) = 2 * sint (Heartrate p)"
    by (simp add: sint_double_in_range)
  from range have pos: "0 < sint (SentBeat p) \<longleftrightarrow> SentBeat p \<noteq> 0"
    "0 < sint (EchoBeat p) \<longleftrightarrow> EchoBeat p \<noteq> 0"
    by (simp_all add: sint_pos_iff)
  show "Dead p \<longleftrightarrow>
    dead_spec (sint (SentBeat p)) (sint (EchoBeat p)) (sint (Heartrate p))"
    unfolding Dead_def dead_spec_def Let_def diff dbl pos by auto
qed

theorem Dead_iff_spec_in_range_witness:
  "\<not> Dead \<lparr>Heartrate = 1000, SentBeat = 0, EchoBeat = 7, stop = None, death = None\<rparr>
   \<and> Dead \<lparr>Heartrate = 1000, SentBeat = 5001, EchoBeat = 3000, stop = None, death = None\<rparr>
   \<and> dead_spec 5001 3000 1000"
  using Dead_iff_spec_in_range
      [of "\<lparr>Heartrate = 1000, SentBeat = 0, EchoBeat = 7, stop = None, death = None\<rparr>"]
    Dead_iff_spec_in_range
      [of "\<lparr>Heartrate = 1000, SentBeat = 5001, EchoBeat = 3000, stop = None, death = None\<rparr>"]
  by (simp add: dead_spec_def)

section \<open>The gateway URL\<close>

text \<open>
  C5 (as stated): for every call \<^verbatim>\<open>GatewayURL\<close> returns the empty string as the
  URL, whatever the response, because the field is read before the response is
  decoded. The source does not fix that order: where the call is evaluated before
  the field is read, a response that carries a URL is returned.
\<close>

theorem GatewayURL_nonempty_counterexample:
  "GatewayURL CallThenRead (\<lambda>r. (r\<lparr>URL := ''wss://gateway.discord.gg''\<rparr>, None))
     = (''wss://gateway.discord.gg'', None)"
  by (simp add: GatewayURL_def)

text \<open>
  C5 (amended): \<^verbatim>\<open>GatewayURL\<close> returns the error of the request in either order;
  the URL it returns is empty when the field of the local struct is read before
  the request is made, and the URL the request decoded into the struct when the
  request is made first.
\<close>

theorem GatewayURL_by_order:
  "fst (GatewayURL ReadThenCall RequestJSON) = []
   \<and> fst (GatewayURL CallThenRead RequestJSON) = URL (fst (RequestJSON \<lparr>URL = []\<rparr>))
   \<and> snd (GatewayURL order RequestJSON) = snd (RequestJSON \<lparr>URL = []\<rparr>)"
  by (cases order) (simp_all add: GatewayURL_def Let_def split: prod.splits)

section \<open>Sending\<close>

text \<open>
  C10: when marshalling the value or the envelope fails, \<^verbatim>\<open>send\<close> and \<^verbatim>\<open>Send\<close> return
  that error (wrapped with the stage that failed) and leave the gateway as it was:
  nothing is handed to the websocket, and the \<^verbatim>\<open>available\<close> gate is not touched.
  This holds whatever the websocket would have done with a frame, and in
  particular while the gate is held in write mode, where taking it would block.
\<close>

theorem send_marshal_error:
  "(Marshal D (Value x) = Inl err \<longrightarrow>
      send D lock code (Some x) g = Ret (Some (Wrapped err ''Failed to encode v''), g)
      \<and> Send D code (Some x) g = Ret (Some (Wrapped err ''Failed to encode v''), g))
   \<and> (Marshal D (Value x) = Inr b
        \<and> Marshal D (Envelope \<lparr>Code = code, OPData = Some b\<rparr>) = Inl err \<longrightarrow>
      send D lock code (Some x) g = Ret (Some (Wrapped err ''Failed to encode payload''), g)
      \<and> Send D code (Some x) g = Ret (Some (Wrapped err ''Failed to encode payload''), g))
   \<and> (Marshal D (Envelope \<lparr>Code = code, OPData = None\<rparr>) = Inl err \<longrightarrow>
      send D lock code None g = Ret (Some (Wrapped err ''Failed to encode payload''), g)
      \<and> Send D code None g = Ret (Some (Wrapped err ''Failed to encode payload''), g))"
  by (simp add: send_def Send_def)

text \<open>
  A driver that cannot encode the byte 255, a websocket whose \<^verbatim>\<open>Send\<close> would
  panic, and a gate held by a writer: \<^verbatim>\<open>Send\<close> returns the encoding error, the
  gateway unchanged. With a value the driver encodes, the same call blocks on the
  gate.
\<close>

theorem send_marshal_error_witness:
  "Send (scripted\<lparr>Marshal := (\<lambda>a. if a = Value [255] then Inl (New ''unsupported'')
                                    else Marshal scripted a),
                  WSSend := (\<lambda>b g. Panic)\<rparr>) 1 (Some [255])
        ((NewGateway \<lparr>inbox = [], outbox = [], dialed = 1\<rparr>)
           \<lparr>available := \<lparr>writer = True, readers = 0\<rparr>\<rparr>)
     = Ret (Some (Wrapped (New ''unsupported'') ''Failed to encode v''),
            (NewGateway \<lparr>inbox = [], outbox = [], dialed = 1\<rparr>)
              \<lparr>available := \<lparr>writer = True, readers = 0\<rparr>\<rparr>)
   \<and> Send (scripted\<lparr>Marshal := (\<lambda>a. if a = Value [255] then Inl (New ''unsupported'')
                                    else Marshal scripted a),
                  WSSend := (\<lambda>b g. Panic)\<rparr>) 1 (Some [7])
        ((NewGateway \<lparr>inbox = [], outbox = [], dialed = 1\<rparr>)
           \<lparr>available := \<lparr>writer = True, readers = 0\<rparr>\<rparr>)
     = Block"
proof -
  let ?D = "scripted\<lparr>Marshal := (\<lambda>a. if a = Value [255] then Inl (New ''unsupported'')
                                    else Marshal scripted a),
                     WSSend := (\<lambda>b g. Panic)\<rparr>"
  have fails: "Marshal ?D (Value [255]) = Inl (New ''unsupported'')"
    by simp
  have "Send ?D 1 (Some [7])
          ((NewGateway \<lparr>inbox = [], outbox = [], dialed = 1\<rparr>)
             \<lparr>available := \<lparr>writer = True, readers = 0\<rparr>\<rparr>) = Block"
    by (simp add: scripted_run)
  with fails send_marshal_error [of ?D "[255]" "New ''unsupported''"] show ?thesis
    by simp
qed

section \<open>The event loop\<close>

text \<open>
  An error that the loop returns is the error of an inbound item, the error for an
  empty payload, or the pacemaker's death value wrapped: never an error of the
  handler.
\<close>

lemma eventLoop_returned_error:
  "eventLoop D inputs g = Ret (Some e, g') \<Longrightarrow>
     (\<exists>ev. Inbound ev \<in> set inputs \<and> Error ev = Some e)
     \<or> (\<exists>ev. Inbound ev \<in> set inputs \<and> Error ev = None \<and> Data ev = []
            \<and> e = New ''Event data is empty, reconnecting.'')
     \<or> (\<exists>cause. PaceDeath (Some cause) \<in> set inputs
            \<and> e = Wrapped cause ''Pacemaker died, reconnecting'')"
proof (induction D inputs g rule: eventLoop.induct)
  case (1 D g)
  then show ?case by simp
next
  case (2 D err rest g)
  show ?case
  proof (cases "paceDeath g = None")
    case True
    with "2.prems" have "eventLoop D rest g = Ret (Some e, g')" by simp
    from "2.IH" [OF True this] show ?thesis by auto
  next
    case False
    with "2.prems" show ?thesis by (cases err) auto
  qed
next
  case (3 D ev rest g)
  show ?case
  proof (cases "Error ev")
    case (Some x)
    with "3.prems" show ?thesis by auto
  next
    case None
    note noerr = this
    show ?thesis
    proof (cases "length (Data ev) = 0")
      case True
      with "3.prems" noerr show ?thesis by auto
    next
      case False
      note nonempty = this
      show ?thesis
      proof (cases "HandleEvent D (Data ev) g")
        case (Ret p)
        obtain err g1 where p: "p = (err, g1)" by (cases p)
        show ?thesis
        proof (cases err)
          case None
          with "3.prems" noerr nonempty Ret p have "eventLoop D rest g1 = Ret (Some e, g')"
            by simp
          from "3.IH"(1) [OF noerr nonempty Ret p [symmetric] None this] show ?thesis by auto
        next
          case (Some x)
          with "3.prems" noerr nonempty Ret p
          have "eventLoop D rest (logError (Wrap (Some x) ''WS handler error'') g1) = Ret (Some e, g')"
            by simp
          from "3.IH"(2) [OF noerr nonempty Ret p [symmetric] Some this] show ?thesis by auto
        qed
      next
        case Panic
        with "3.prems" noerr nonempty show ?thesis by simp
      next
        case Block
        with "3.prems" noerr nonempty show ?thesis by simp
      qed
    qed
  qed
qed

text \<open>
  C9: with the loop at its \<^verbatim>\<open>select\<close> in any state \<open>g\<close>, and whatever arrives
  afterwards (\<open>rest\<close>): an inbound item that carries a transport error makes the
  loop return that error; one with no error and an empty payload makes it return
  the error "Event data is empty, reconnecting."; and when the handler fails on a
  payload, the error is passed, wrapped, to \<^verbatim>\<open>ErrorLog\<close> and the loop goes on with
  the items that follow. Over a whole run, an error the loop returns is one of
  the first two or the pacemaker's death value, not an error of the handler.
\<close>

theorem eventLoop_inbound_item:
  "eventLoop D (Inbound \<lparr>Data = d, Error = Some e\<rparr> # rest) g = Ret (Some e, g)
   \<and> eventLoop D (Inbound \<lparr>Data = [], Error = None\<rparr> # rest) g
       = Ret (Some (New ''Event data is empty, reconnecting.''), g)
   \<and> (d \<noteq> [] \<and> HandleEvent D d g = Ret (Some e, g1) \<longrightarrow>
        eventLoop D (Inbound \<lparr>Data = d, Error = None\<rparr> # rest) g
          = eventLoop D rest (g1\<lparr>ErrorLog := ErrorLog g1 @ [Some (Wrapped e ''WS handler error'')]\<rparr>))
   \<and> (eventLoop D inputs g = Ret (Some e, g') \<longrightarrow>
        (\<exists>ev. Inbound ev \<in> set inputs \<and> Error ev = Some e)
        \<or> (\<exists>ev. Inbound ev \<in> set inputs \<and> Error ev = None \<and> Data ev = []
               \<and> e = New ''Event data is empty, reconnecting.'')
        \<or> (\<exists>cause. PaceDeath (Some cause) \<in> set inputs
               \<and> e = Wrapped cause ''Pacemaker died, reconnecting''))"
  using eventLoop_returned_error [of D inputs g e g'] by (simp add: logError_def)

text \<open>
  A frame the handler rejects, then a transport error: the first is logged, the
  loop goes on, and it is the second that ends it.
\<close>

theorem eventLoop_inbound_item_witness:
  "eventLoop scripted [Inbound (frame [9]), Inbound (broken (New ''EOF''))]
       (NewGateway \<lparr>inbox = [], outbox = [], dialed = 1\<rparr>)
     = Ret (Some (New ''EOF''),
            (NewGateway \<lparr>inbox = [], outbox = [], dialed = 1\<rparr>)
              \<lparr>ErrorLog := [Some (Wrapped ErrInvalidSession ''WS handler error'')]\<rparr>)"
proof -
  let ?g = "NewGateway \<lparr>inbox = [], outbox = [], dialed = 1\<rparr>"
  have h: "[9 :: 8 word] \<noteq> [] \<and> HandleEvent scripted [9] ?g
             = Ret (Some ErrInvalidSession, ?g\<lparr>SessionID := []\<rparr>)"
    by (simp add: scripted_def)
  have same: "?g\<lparr>SessionID := []\<rparr> = ?g"
    by (simp add: NewGateway_def)
  from h eventLoop_inbound_item
         [of scripted "[9]" ErrInvalidSession "[Inbound (broken (New ''EOF''))]" ?g
             "?g\<lparr>SessionID := []\<rparr>"]
  show ?thesis
    by (simp add: frame_def broken_def same) (simp add: NewGateway_def)
qed

section \<open>Reconnecting\<close>




text \<open>
  \<^verbatim>\<open>Open\<close> itself never returns \<^verbatim>\<open>ErrInvalidSession\<close>: every error that \<^verbatim>\<open>start\<close> or
  \<^verbatim>\<open>Open\<close> returns has been through \<^verbatim>\<open>errors.Wrap\<close>, and a wrapped error is another
  value than the error it wraps.
\<close>

lemma Wrap_Some_wrapped: "Wrap err msg = Some e \<Longrightarrow> \<exists>cause. e = Wrapped cause msg"
  by (cases err) auto

lemma andThen_RetE:
  assumes "andThen m f = Ret y"
  obtains x where "m = Ret x" and "f x = Ret y"
  using assms by (cases m) (simp_all add: andThen_def)

lemma start_error_is_wrapped:
  "start D g = Ret (Some e, g') \<Longrightarrow> \<exists>cause msg. e = Wrapped cause msg"
  unfolding start_def Let_def
  by (auto elim!: andThen_RetE split: prod.splits option.splits sum.splits if_splits
      dest!: Wrap_Some_wrapped)

lemma Start_error_is_wrapped:
  "Start D g = Ret (Some e, g') \<Longrightarrow> \<exists>cause msg. e = Wrapped cause msg"
  unfolding Start_def
  by (auto elim!: andThen_RetE split: prod.splits option.splits dest: start_error_is_wrapped)

lemma Open_error_is_wrapped:
  "Open D g = Ret (Some e, g') \<Longrightarrow> \<exists>cause msg. e = Wrapped cause msg"
  unfolding Open_def
  by (auto elim!: andThen_RetE split: prod.splits option.splits) (erule Start_error_is_wrapped)





section \<open>The fatal-error slot\<close>

text \<open>
  C3: the claim is that a value reaches \<^verbatim>\<open>fatalError\<close> only when reconnecting
  failed, so that \<^verbatim>\<open>Wait\<close> does not return while the gateway has reconnected.
  \<^verbatim>\<open>handleWS\<close> sends \<^verbatim>\<open>errors.Wrap(g.Reconnect(), ...)\<close> whatever \<^verbatim>\<open>Reconnect\<close> returned:
  when the event loop ended with an error and \<^verbatim>\<open>Reconnect\<close> returned nil, nil is
  queued on \<^verbatim>\<open>fatalError\<close>, and \<^verbatim>\<open>Wait\<close> returns it.
\<close>

theorem handleWS_publishes_nil_after_reconnect:
  "eventLoop D inputs g = Ret (Some e, g1) \<and> wgDone g1 = Ret g2
     \<and> Reconnect D (logError (Some e) g2) = Ret (None, g3) \<and> fatalError g3 = [] \<longrightarrow>
   handleWS D inputs g = Ret (g3\<lparr>fatalError := [None]\<rparr>)
     \<and> Wait (g3\<lparr>fatalError := [None]\<rparr>) = Ret (None, g3)"
  by (simp add: handleWS_def andThen_def publishFatal_def Wait_def)

text \<open>
  A session is opened (Hello, Identify, Ready), its pacemaker dies for want of a
  heartbeat acknowledgement, and the gateway reconnects at the first attempt
  (second dial, Hello, Resume, a second event loop started): \<^verbatim>\<open>Wait\<close> returns nil.
\<close>

theorem handleWS_publishes_nil_after_reconnect_witness:
  "andThen (Open scripted
              (NewGateway \<lparr>inbox = [frame [10], frame [0], frame [10], frame [7]],
                           outbox = [], dialed = 0\<rparr>))
     (\<lambda>(err, g). andThen (handleWS scripted [PaceDeath (Some ErrDead)] g)
     (\<lambda>g. andThen (Wait g)
     (\<lambda>(v, g). Ret (err, v, outbox (WS g), dialed (WS g), handlers g, ErrorLog g))))
   = Ret (None, None, [[2], [6]], 2, 2,
          [Some (Wrapped ErrDead ''Pacemaker died, reconnecting'')])"
proof -
  define g where "g = \<lparr>WS = \<lparr>inbox = [frame [10], frame [7]], outbox = [[2]], dialed = 1\<rparr>,
      SessionID = ''S1'', Pacemaker = Some (NewPacemaker 41250), ErrorLog = [],
      fatalError = [], available = \<lparr>writer = False, readers = 0\<rparr>,
      paceDeath = Some (Chan []), waitGroup = Some 2, handlers = 1\<rparr>"
  define g3 where "g3 = \<lparr>WS = \<lparr>inbox = [], outbox = [[2], [6]], dialed = 2\<rparr>,
      SessionID = ''S1'', Pacemaker = Some (NewPacemaker 41250),
      ErrorLog = [Some (Wrapped ErrDead ''Pacemaker died, reconnecting'')],
      fatalError = [], available = \<lparr>writer = False, readers = 0\<rparr>,
      paceDeath = Some (Chan []), waitGroup = Some 2, handlers = 2\<rparr>"
  let ?e = "Wrapped ErrDead ''Pacemaker died, reconnecting''"
  have opened: "Open scripted
      (NewGateway \<lparr>inbox = [frame [10], frame [0], frame [10], frame [7]],
                   outbox = [], dialed = 0\<rparr>) = Ret (None, g)"
    by (simp add: scripted_run g_def)
  have "eventLoop scripted [PaceDeath (Some ErrDead)] g = Ret (Some ?e, g\<lparr>paceDeath := None\<rparr>)
     \<and> wgDone (g\<lparr>paceDeath := None\<rparr>) = Ret (g\<lparr>paceDeath := None, waitGroup := Some 1\<rparr>)
     \<and> Reconnect scripted (logError (Some ?e) (g\<lparr>paceDeath := None, waitGroup := Some 1\<rparr>))
         = Ret (None, g3)
     \<and> fatalError g3 = []"
    by (simp add: scripted_run retry.simps g_def g3_def)
  with handleWS_publishes_nil_after_reconnect
         [of scripted "[PaceDeath (Some ErrDead)]" g ?e "g\<lparr>paceDeath := None\<rparr>"
             "g\<lparr>paceDeath := None, waitGroup := Some 1\<rparr>" g3]
  have "handleWS scripted [PaceDeath (Some ErrDead)] g = Ret (g3\<lparr>fatalError := [None]\<rparr>)"
    and "Wait (g3\<lparr>fatalError := [None]\<rparr>) = Ret (None, g3)"
    by blast+
  with opened show ?thesis
    by (simp add: andThen_def g3_def)
qed

section \<open>A handshake that fails\<close>

text \<open>
  C8: the claim is that \<^verbatim>\<open>Start\<close> tears down and returns the handshake error also
  when the handshake fails before a pacemaker or a wait-group exists. When the
  first frame is not a Hello, \<^verbatim>\<open>start\<close> returns "Error at Hello" with \<^verbatim>\<open>waitGroup\<close>
  as it was; \<^verbatim>\<open>Start\<close> calls \<^verbatim>\<open>Close\<close>, and if stopping the pacemaker returns at all,
  \<^verbatim>\<open>Close\<close> calls \<^verbatim>\<open>Wait\<close> on the nil wait-group and panics. \<^verbatim>\<open>Start\<close> does not
  return the error.
\<close>

theorem Start_hello_failure_panics:
  "Lock (available g) = Ret m \<and> Recv D (g\<lparr>available := m\<rparr>) = Ret (ev, g1)
     \<and> AssertEvent D ev g1 = Ret (Inl err, g2) \<and> waitGroup g2 = None
     \<and> (\<forall>g3. PacemakerStop D g2 = Ret g3 \<longrightarrow> waitGroup g3 = waitGroup g2) \<longrightarrow>
   start D (g\<lparr>available := m\<rparr>) = Ret (Some (Wrapped err ''Error at Hello''), g2)
     \<and> (\<forall>x. Close D g2 \<noteq> Ret x)
     \<and> (\<forall>x. Start D g \<noteq> Ret x)
     \<and> ((\<exists>g3. PacemakerStop D g2 = Ret g3) \<longrightarrow> Start D g = Panic)"
proof (intro impI)
  assume h: "Lock (available g) = Ret m \<and> Recv D (g\<lparr>available := m\<rparr>) = Ret (ev, g1)
     \<and> AssertEvent D ev g1 = Ret (Inl err, g2) \<and> waitGroup g2 = None
     \<and> (\<forall>g3. PacemakerStop D g2 = Ret g3 \<longrightarrow> waitGroup g3 = waitGroup g2)"
  then have st: "start D (g\<lparr>available := m\<rparr>) = Ret (Some (Wrapped err ''Error at Hello''), g2)"
    by (simp add: start_def andThen_def)
  have cl: "Close D g2 \<noteq> Ret x" for x
    using h by (cases "PacemakerStop D g2") (simp_all add: Close_def andThen_def)
  have cp: "Close D g2 = Panic" if "\<exists>g3. PacemakerStop D g2 = Ret g3"
    using h that by (auto simp: Close_def andThen_def)
  have "Start D g = andThen (Close D g2) (\<lambda>(_, g3).
      andThen (Unlock (available g3)) (\<lambda>m'. Ret (Some (Wrapped err ''Error at Hello''),
        g3\<lparr>available := m'\<rparr>)))"
    using h st by (simp add: Start_def andThen_def)
  with cl cp st show "start D (g\<lparr>available := m\<rparr>) = Ret (Some (Wrapped err ''Error at Hello''), g2)
     \<and> (\<forall>x. Close D g2 \<noteq> Ret x)
     \<and> (\<forall>x. Start D g \<noteq> Ret x)
     \<and> ((\<exists>g3. PacemakerStop D g2 = Ret g3) \<longrightarrow> Start D g = Panic)"
    by (cases "Close D g2") (auto simp: andThen_def)
qed

text \<open>
  A gateway fresh from its constructor, dialed, whose websocket delivers a read
  error as its first item.
\<close>

theorem Start_hello_failure_panics_witness:
  "Start scripted (NewGateway \<lparr>inbox = [broken (New ''EOF'')], outbox = [], dialed = 1\<rparr>) = Panic"
proof -
  let ?g = "NewGateway \<lparr>inbox = [broken (New ''EOF'')], outbox = [], dialed = 1\<rparr>"
  let ?m = "\<lparr>writer = True, readers = 0\<rparr>"
  let ?g2 = "(NewGateway \<lparr>inbox = [], outbox = [], dialed = 1\<rparr>)\<lparr>available := ?m\<rparr>"
  have "Lock (available ?g) = Ret ?m
     \<and> Recv scripted (?g\<lparr>available := ?m\<rparr>) = Ret (broken (New ''EOF''), ?g2)
     \<and> AssertEvent scripted (broken (New ''EOF'')) ?g2 = Ret (Inl (New ''EOF''), ?g2)
     \<and> waitGroup ?g2 = None
     \<and> (\<forall>g3. PacemakerStop scripted ?g2 = Ret g3 \<longrightarrow> waitGroup g3 = waitGroup ?g2)"
    by (simp add: scripted_def NewGateway_def Lock_def broken_def)
  moreover have "\<exists>g3. PacemakerStop scripted ?g2 = Ret g3"
    by (simp add: scripted_def)
  ultimately show ?thesis
    using Start_hello_failure_panics
            [of ?g ?m scripted "broken (New ''EOF'')" ?g2 "New ''EOF''" ?g2]
    by blast
qed

section \<open>The death channel\<close>

lemma clocked_channels [simp]:
  "death (clocked b p) = death p" "stop (clocked b p) = stop p"
  "Heartrate (clocked b p) = Heartrate p"
  by (simp_all add: clocked_def Echo_def split: option.splits)

lemma pace_and_check_channels:
  "pace_and_check b p = Returned v p' \<Longrightarrow> death p' = death p \<and> stop p' = stop p"
  "pace_and_check b p = Running p' \<Longrightarrow> death p' = death p \<and> stop p' = stop p"
  "pace_and_check b p \<noteq> Panicked"
  by (auto simp: pace_and_check_def split: option.splits if_splits)

lemma loop_channels:
  "case loop bs p of
     Returned v p' \<Rightarrow> death p' = death p \<and> stop p' = stop p
   | Running p' \<Rightarrow> death p' = death p \<and> stop p' = stop p
   | Panicked \<Rightarrow> False"
proof (induction bs arbitrary: p)
  case Nil
  show ?case by simp
next
  case (Cons b bs)
  show ?case
  proof (cases "pace_and_check b p")
    case (Returned v p')
    with pace_and_check_channels(1) [OF Returned] show ?thesis by simp
  next
    case (Running p')
    note chan = pace_and_check_channels(2) [OF Running]
    show ?thesis
    proof (cases "woke b")
      case StopSignal
      with Running chan show ?thesis by simp
    next
      case Tick
      with Running chan Cons.IH [of p'] show ?thesis
        by (cases "loop bs p'") simp_all
    qed
  next
    case Panicked
    with pace_and_check_channels(3) [of b p] show ?thesis by simp
  qed
qed

lemma loop_append:
  "loop (pre @ post) p =
     (case loop pre p of
        Running q \<Rightarrow> loop post q
      | Returned v q \<Rightarrow> Returned v q
      | Panicked \<Rightarrow> Panicked)"
proof (induction pre arbitrary: p)
  case Nil
  show ?case by simp
next
  case (Cons b pre)
  show ?case
  proof (cases "pace_and_check b p")
    case (Running p')
    with Cons.IH [of p'] show ?thesis by (cases "woke b") simp_all
  qed simp_all
qed

lemma wg_done_after_add [simp]: "map_option (\<lambda>n. n - Suc 0) (map_option Suc wg) = wg"
  by (cases wg) simp_all

lemma StartAsync_pacemaker_sent:
  "case StartAsync_pacemaker now bs received wg p of
     Finished v p' wg' \<Rightarrow> received \<and> communicated (death p') = [v]
   | Offering v p' wg' \<Rightarrow> \<not> received \<and> communicated (death p') = []
   | Looping p' wg' \<Rightarrow> communicated (death p') = []
   | Crashed \<Rightarrow> sint (Heartrate p) \<le> 0"
proof (cases "sint (Heartrate p) \<le> 0")
  case True
  then show ?thesis
    by (simp add: StartAsync_pacemaker_def start_pacemaker_def)
next
  case False
  let ?p0 = "Echo now (p\<lparr>death := Some (Chan []), stop := Some (Chan [])\<rparr>)"
  have d: "death ?p0 = Some (Chan [])" by (simp add: Echo_def)
  from False loop_channels [where bs = bs and p = ?p0] d show ?thesis
    by (cases "loop bs ?p0")
       (simp_all add: StartAsync_pacemaker_def start_pacemaker_def Echo_def Let_def)
qed

lemma StartAsync_pacemaker_last_beat:
  assumes rate: "0 < sint (Heartrate p)"
    and pre: "loop pre (Echo now (p\<lparr>death := Some (Chan []), stop := Some (Chan [])\<rparr>)) = Running q"
    and last: "loop [b] q = Returned v q'"
  shows "StartAsync_pacemaker now (pre @ b # rest) received wg p
           = (if received then Finished v (q'\<lparr>death := Some (Chan [v]), stop := None\<rparr>) wg
              else Offering v q' (map_option Suc wg))"
proof -
  let ?p0 = "Echo now (p\<lparr>death := Some (Chan []), stop := Some (Chan [])\<rparr>)"
  from loop_channels [where bs = pre and p = ?p0] pre have "death q = Some (Chan [])"
    by (simp add: Echo_def)
  with loop_channels [where bs = "[b]" and p = q] last have dq': "death q' = Some (Chan [])"
    by simp
  from last have "loop (b # rest) q = Returned v q'"
    by (auto split: run.splits wake.splits)
  with pre have "loop (pre @ b # rest) ?p0 = Returned v q'"
    by (simp add: loop_append)
  with rate dq' show ?thesis
    by (simp add: StartAsync_pacemaker_def start_pacemaker_def Echo_def)
qed

text \<open>
  C6 (as stated): the claim is that every execution of a started pacemaker sends
  exactly one value on its death channel. A pacemaker started with the heartrate
  0 panics in \<^verbatim>\<open>time.NewTicker\<close> before its loop, whatever the loop would have met
  and with a receiver waiting on the death channel: it sends nothing.
\<close>

theorem pacemaker_zero_heartrate_counterexample:
  "StartAsync_pacemaker 1000
       [\<lparr>paced = None, sent_at = 1001, echoed = None, woke = StopSignal\<rparr>]
       True (Some 0) (NewPacemaker 0)
     = Crashed"
  by (simp add: StartAsync_pacemaker_def start_pacemaker_def NewPacemaker_def)

text \<open>
  C6 (amended): a pacemaker panics in \<^verbatim>\<open>time.NewTicker\<close>, sending nothing, exactly
  when it is started with a heartrate that is not positive. Started with a
  positive heartrate, whatever the passes of its loop meet, nothing has been sent
  on its death channel while the loop runs; once the loop has returned the
  goroutine makes one send, of the value \<^verbatim>\<open>start\<close> returned, and ends after it, so
  no second value follows: with a receiver exactly that one value has been
  communicated, without one none has and the goroutine stays in the send. With the
  loop still running after the passes \<open>pre\<close>, the next pass \<open>b\<close> decides the
  value, whatever passes \<open>rest\<close> were to follow: the error of \<^verbatim>\<open>Pace\<close> when \<^verbatim>\<open>Pace\<close>
  fails; \<^verbatim>\<open>ErrDead\<close> when \<^verbatim>\<open>Pace\<close> succeeds and \<^verbatim>\<open>Dead\<close> holds of the timestamps then;
  nil when neither happens and the stop signal is received.
\<close>

theorem pacemaker_death_value:
  "(case StartAsync_pacemaker now bs received wg p of
      Finished v p' wg' \<Rightarrow> received \<and> communicated (death p') = [v]
    | Offering v p' wg' \<Rightarrow> \<not> received \<and> communicated (death p') = []
    | Looping p' wg' \<Rightarrow> communicated (death p') = []
    | Crashed \<Rightarrow> sint (Heartrate p) \<le> 0)
   \<and> (sint (Heartrate p) \<le> 0 \<longrightarrow> StartAsync_pacemaker now bs received wg p = Crashed)
   \<and> (0 < sint (Heartrate p)
        \<and> loop pre (Echo now (p\<lparr>death := Some (Chan []), stop := Some (Chan [])\<rparr>)) = Running q
      \<longrightarrow>
        (paced b = Some e \<longrightarrow>
           StartAsync_pacemaker now (pre @ b # rest) received wg p
             = (if received
                then Finished (Some e) (q\<lparr>death := Some (Chan [Some e]), stop := None\<rparr>) wg
                else Offering (Some e) q (map_option Suc wg)))
      \<and> (paced b = None \<and> Dead (clocked b q) \<longrightarrow>
           StartAsync_pacemaker now (pre @ b # rest) received wg p
             = (if received
                then Finished (Some ErrDead)
                       ((clocked b q)\<lparr>death := Some (Chan [Some ErrDead]), stop := None\<rparr>) wg
                else Offering (Some ErrDead) (clocked b q) (map_option Suc wg)))
      \<and> (paced b = None \<and> \<not> Dead (clocked b q) \<and> woke b = StopSignal \<longrightarrow>
           StartAsync_pacemaker now (pre @ b # rest) received wg p
             = (if received
                then Finished None ((clocked b q)\<lparr>death := Some (Chan [None]), stop := None\<rparr>) wg
                else Offering None (clocked b q) (map_option Suc wg))))"
proof (intro conjI impI)
  show "case StartAsync_pacemaker now bs received wg p of
      Finished v p' wg' \<Rightarrow> received \<and> communicated (death p') = [v]
    | Offering v p' wg' \<Rightarrow> \<not> received \<and> communicated (death p') = []
    | Looping p' wg' \<Rightarrow> communicated (death p') = []
    | Crashed \<Rightarrow> sint (Heartrate p) \<le> 0"
    by (rule StartAsync_pacemaker_sent)
next
  assume "sint (Heartrate p) \<le> 0"
  then show "StartAsync_pacemaker now bs received wg p = Crashed"
    by (simp add: StartAsync_pacemaker_def start_pacemaker_def)
next
  assume h: "0 < sint (Heartrate p)
        \<and> loop pre (Echo now (p\<lparr>death := Some (Chan []), stop := Some (Chan [])\<rparr>)) = Running q"
    and "paced b = Some e"
  then have "loop [b] q = Returned (Some e) q"
    by (simp add: pace_and_check_def)
  with h show "StartAsync_pacemaker now (pre @ b # rest) received wg p
             = (if received
                then Finished (Some e) (q\<lparr>death := Some (Chan [Some e]), stop := None\<rparr>) wg
                else Offering (Some e) q (map_option Suc wg))"
    by (simp add: StartAsync_pacemaker_last_beat)
next
  assume h: "0 < sint (Heartrate p)
        \<and> loop pre (Echo now (p\<lparr>death := Some (Chan []), stop := Some (Chan [])\<rparr>)) = Running q"
    and "paced b = None \<and> Dead (clocked b q)"
  then have "loop [b] q = Returned (Some ErrDead) (clocked b q)"
    by (simp add: pace_and_check_def)
  with h show "StartAsync_pacemaker now (pre @ b # rest) received wg p
             = (if received
                then Finished (Some ErrDead)
                       ((clocked b q)\<lparr>death := Some (Chan [Some ErrDead]), stop := None\<rparr>) wg
                else Offering (Some ErrDead) (clocked b q) (map_option Suc wg))"
    by (simp add: StartAsync_pacemaker_last_beat)
next
  assume h: "0 < sint (Heartrate p)
        \<and> loop pre (Echo now (p\<lparr>death := Some (Chan []), stop := Some (Chan [])\<rparr>)) = Running q"
    and "paced b = None \<and> \<not> Dead (clocked b q) \<and> woke b = StopSignal"
  then have "loop [b] q = Returned None (clocked b q)"
    by (simp add: pace_and_check_def)
  with h show "StartAsync_pacemaker now (pre @ b # rest) received wg p
             = (if received
                then Finished None ((clocked b q)\<lparr>death := Some (Chan [None]), stop := None\<rparr>) wg
                else Offering None (clocked b q) (map_option Suc wg))"
    by (simp add: StartAsync_pacemaker_last_beat)
qed

text \<open>
  A pacemaker of heartrate 1000 whose first pass is acknowledged, with a receiver
  on its death channel. Stopped in its second pass it sends nil, and a later
  failure of \<^verbatim>\<open>Pace\<close> in the script changes nothing; unacknowledged for more than two
  heartrates it sends \<^verbatim>\<open>ErrDead\<close>; when \<^verbatim>\<open>Pace\<close> fails it sends that error. Without a
  receiver the same failure leaves the goroutine in its send, the channel empty,
  \<^verbatim>\<open>p.stop\<close> not nil and the wait-group not lowered.
\<close>

theorem pacemaker_death_value_witness:
  "StartAsync_pacemaker 1000
       [\<lparr>paced = None, sent_at = 1001, echoed = Some 1002, woke = Tick\<rparr>,
        \<lparr>paced = None, sent_at = 2001, echoed = None, woke = StopSignal\<rparr>,
        \<lparr>paced = Some (New ''late''), sent_at = 3001, echoed = None, woke = Tick\<rparr>]
       True (Some 0) (NewPacemaker 1000)
     = Finished None
         \<lparr>Heartrate = 1000, SentBeat = 2001, EchoBeat = 1002, stop = None,
           death = Some (Chan [None])\<rparr> (Some 0)
   \<and> StartAsync_pacemaker 1000
       [\<lparr>paced = None, sent_at = 1001, echoed = Some 1002, woke = Tick\<rparr>,
        \<lparr>paced = None, sent_at = 3003, echoed = None, woke = StopSignal\<rparr>]
       True (Some 0) (NewPacemaker 1000)
     = Finished (Some ErrDead)
         \<lparr>Heartrate = 1000, SentBeat = 3003, EchoBeat = 1002, stop = None,
           death = Some (Chan [Some ErrDead])\<rparr> (Some 0)
   \<and> StartAsync_pacemaker 1000
       [\<lparr>paced = None, sent_at = 1001, echoed = Some 1002, woke = Tick\<rparr>,
        \<lparr>paced = Some (New ''broken pipe''), sent_at = 2001, echoed = None, woke = StopSignal\<rparr>]
       True (Some 0) (NewPacemaker 1000)
     = Finished (Some (New ''broken pipe''))
         \<lparr>Heartrate = 1000, SentBeat = 1001, EchoBeat = 1002, stop = None,
           death = Some (Chan [Some (New ''broken pipe'')])\<rparr> (Some 0)
   \<and> StartAsync_pacemaker 1000
       [\<lparr>paced = None, sent_at = 1001, echoed = Some 1002, woke = Tick\<rparr>,
        \<lparr>paced = Some (New ''broken pipe''), sent_at = 2001, echoed = None, woke = StopSignal\<rparr>]
       False (Some 0) (NewPacemaker 1000)
     = Offering (Some (New ''broken pipe''))
         \<lparr>Heartrate = 1000, SentBeat = 1001, EchoBeat = 1002, stop = Some (Chan []),
           death = Some (Chan [])\<rparr> (Some 1)"
proof -
  let ?b1 = "\<lparr>paced = None, sent_at = 1001, echoed = Some 1002, woke = Tick\<rparr>"
  let ?q = "\<lparr>Heartrate = 1000, SentBeat = 1001, EchoBeat = 1002, stop = Some (Chan []),
             death = Some (Chan [])\<rparr>"
  have h: "0 < sint (Heartrate (NewPacemaker 1000))
     \<and> loop [?b1] (Echo 1000 ((NewPacemaker 1000)\<lparr>death := Some (Chan []), stop := Some (Chan [])\<rparr>))
         = Running ?q"
    by (simp add: NewPacemaker_def Echo_def pace_and_check_def clocked_def Dead_def)
  note inst = pacemaker_death_value [where now = 1000 and p = "NewPacemaker 1000"
      and pre = "[?b1]" and q = ?q and wg = "Some 0",
      THEN conjunct2, THEN conjunct2, THEN mp, OF h]
  have stopped: "paced \<lparr>paced = None, sent_at = 2001, echoed = None, woke = StopSignal\<rparr> = None
     \<and> \<not> Dead (clocked \<lparr>paced = None, sent_at = 2001, echoed = None, woke = StopSignal\<rparr> ?q)
     \<and> woke \<lparr>paced = None, sent_at = 2001, echoed = None, woke = StopSignal\<rparr> = StopSignal"
    by (simp add: clocked_def Dead_def)
  have dead: "paced \<lparr>paced = None, sent_at = 3003, echoed = None, woke = StopSignal\<rparr> = None
     \<and> Dead (clocked \<lparr>paced = None, sent_at = 3003, echoed = None, woke = StopSignal\<rparr> ?q)"
    by (simp add: clocked_def Dead_def)
  have failed: "paced \<lparr>paced = Some (New ''broken pipe''), sent_at = 2001, echoed = None,
      woke = StopSignal\<rparr> = Some (New ''broken pipe'')"
    by simp
  from inst [THEN conjunct2, THEN conjunct2, THEN mp, OF stopped,
      of "[\<lparr>paced = Some (New ''late''), sent_at = 3001, echoed = None, woke = Tick\<rparr>]" True]
    inst [THEN conjunct2, THEN conjunct1, THEN mp, OF dead, of "[]" True]
    inst [THEN conjunct1, THEN mp, OF failed, of "[]" True]
    inst [THEN conjunct1, THEN mp, OF failed, of "[]" False]
  show ?thesis
    by (simp add: clocked_def)
qed

section \<open>Stop after the loop has returned\<close>

lemma step_keeps_sender_blocked:
  assumes "step w w'" and "stopper w = Sending" and "returned (at w)"
  shows "stopper w' = Sending \<and> returned (at w')"
  using assms by (cases rule: step.cases) (simp_all add: returned_def)

lemma steps_keep_sender_blocked:
  assumes "step\<^sup>*\<^sup>* w w'" and "stopper w = Sending" and "returned (at w)"
  shows "stopper w' = Sending \<and> returned (at w')"
  using assms
proof (induction rule: rtranclp_induct)
  case base
  then show ?case by simp
next
  case (step y z)
  then show ?case using step_keeps_sender_blocked by blast
qed

text \<open>
  C4: the claim is that every call of \<^verbatim>\<open>Stop\<close> after the loop has terminated
  completes without blocking. The goroutine sets \<^verbatim>\<open>p.stop\<close> to nil only after its
  send on the unbuffered death channel has been received. Until then a call of
  \<^verbatim>\<open>Stop\<close> finds \<^verbatim>\<open>p.stop\<close> not nil and enters its send, and since the loop has
  returned nothing receives on \<^verbatim>\<open>p.stop\<close> any more: whatever happens afterwards,
  the death value received and \<^verbatim>\<open>p.stop\<close> cleared included, the call stays in its
  send. Only a call that finds \<^verbatim>\<open>p.stop\<close> nil returns.
\<close>

theorem Stop_blocks_after_loop_returned:
  "(stopper w = Entered \<and> returned (at w) \<and> stop (pacer w) \<noteq> None \<longrightarrow>
      step w (w\<lparr>stopper := Sending\<rparr>)
      \<and> (\<forall>w'. step\<^sup>*\<^sup>* (w\<lparr>stopper := Sending\<rparr>) w' \<longrightarrow> stopper w' = Sending))
   \<and> (stopper w = Entered \<and> stop (pacer w) = None \<longrightarrow> step w (w\<lparr>stopper := Left\<rparr>))"
proof (intro conjI impI allI)
  assume h: "stopper w = Entered \<and> returned (at w) \<and> stop (pacer w) \<noteq> None"
  then have "Stop (pacer w) = Sending" by (simp add: Stop_def)
  with h step.stop_called [of w] show "step w (w\<lparr>stopper := Sending\<rparr>)" by simp
next
  fix w'
  assume h: "stopper w = Entered \<and> returned (at w) \<and> stop (pacer w) \<noteq> None"
    and "step\<^sup>*\<^sup>* (w\<lparr>stopper := Sending\<rparr>) w'"
  with steps_keep_sender_blocked [of "w\<lparr>stopper := Sending\<rparr>" w']
  show "stopper w' = Sending" by simp
next
  assume h: "stopper w = Entered \<and> stop (pacer w) = None"
  then have "Stop (pacer w) = Left" by (simp add: Stop_def)
  with h step.stop_called [of w] show "step w (w\<lparr>stopper := Left\<rparr>)" by simp
qed

text \<open>
  A pacemaker started with heartrate 1000 whose first \<^verbatim>\<open>Pace\<close> fails: the loop
  returns, the goroutine is at its send on the death channel, and a call of \<^verbatim>\<open>Stop\<close>
  enters its send. The death value is then received and \<^verbatim>\<open>p.stop\<close> set to nil, with
  the call still in its send.
\<close>

theorem Stop_blocks_after_loop_returned_witness:
  "step \<lparr>pacer = \<lparr>Heartrate = 1000, SentBeat = 0, EchoBeat = 1000, stop = Some (Chan []),
                    death = Some (Chan [])\<rparr>,
           at = Pacing, stopper = Entered\<rparr>
        \<lparr>pacer = \<lparr>Heartrate = 1000, SentBeat = 0, EchoBeat = 1000, stop = Some (Chan []),
                    death = Some (Chan [])\<rparr>,
           at = Dying (Some (New ''broken pipe'')), stopper = Entered\<rparr>
   \<and> step \<lparr>pacer = \<lparr>Heartrate = 1000, SentBeat = 0, EchoBeat = 1000, stop = Some (Chan []),
                    death = Some (Chan [])\<rparr>,
           at = Dying (Some (New ''broken pipe'')), stopper = Entered\<rparr>
        \<lparr>pacer = \<lparr>Heartrate = 1000, SentBeat = 0, EchoBeat = 1000, stop = Some (Chan []),
                    death = Some (Chan [])\<rparr>,
           at = Dying (Some (New ''broken pipe'')), stopper = Sending\<rparr>
   \<and> step\<^sup>*\<^sup>*
        \<lparr>pacer = \<lparr>Heartrate = 1000, SentBeat = 0, EchoBeat = 1000, stop = Some (Chan []),
                    death = Some (Chan [])\<rparr>,
           at = Dying (Some (New ''broken pipe'')), stopper = Sending\<rparr>
        \<lparr>pacer = \<lparr>Heartrate = 1000, SentBeat = 0, EchoBeat = 1000, stop = None,
                    death = Some (Chan [Some (New ''broken pipe'')])\<rparr>,
           at = Gone, stopper = Sending\<rparr>"
proof -
  let ?p = "\<lparr>Heartrate = 1000, SentBeat = 0, EchoBeat = 1000, stop = Some (Chan []),
             death = Some (Chan [])\<rparr>"
  let ?w0 = "\<lparr>pacer = ?p, at = Pacing, stopper = Entered\<rparr>"
  let ?w1 = "\<lparr>pacer = ?p, at = Dying (Some (New ''broken pipe'')), stopper = Entered\<rparr>"
  let ?w2 = "\<lparr>pacer = ?p, at = Dying (Some (New ''broken pipe'')), stopper = Sending\<rparr>"
  let ?w3 = "\<lparr>pacer = ?p\<lparr>death := Some (Chan [Some (New ''broken pipe'')])\<rparr>,
              at = Clearing, stopper = Sending\<rparr>"
  let ?w4 = "\<lparr>pacer = \<lparr>Heartrate = 1000, SentBeat = 0, EchoBeat = 1000, stop = None,
                       death = Some (Chan [Some (New ''broken pipe'')])\<rparr>,
              at = Gone, stopper = Sending\<rparr>"
  have "pace_and_check \<lparr>paced = Some (New ''broken pipe''), sent_at = 1001, echoed = None,
          woke = Tick\<rparr> (pacer ?w0) = Returned (Some (New ''broken pipe'')) ?p"
    by (simp add: pace_and_check_def)
  with step.pace_return [of ?w0 _ "Some (New ''broken pipe'')" ?p] have s01: "step ?w0 ?w1"
    by simp
  have "stopper ?w1 = Entered \<and> returned (at ?w1) \<and> stop (pacer ?w1) \<noteq> None"
    by (simp add: returned_def)
  with Stop_blocks_after_loop_returned [of ?w1] have s12: "step ?w1 ?w2"
    by simp
  from step.death_received [of ?w2 "Some (New ''broken pipe'')"] have s23: "step ?w2 ?w3"
    by simp
  from step.stop_cleared [of ?w3] have s34: "step ?w3 ?w4"
    by simp
  from s23 s34 have "step\<^sup>*\<^sup>* ?w2 ?w4"
    by (meson rtranclp.rtrancl_into_rtrancl rtranclp.rtrancl_refl)
  with s01 s12 show ?thesis by blast
qed

section \<open>The first frame after a dial\<close>

lemma move_in_order:
  assumes "move True a b" and "in_order a"
  shows "in_order b \<and> session b = session a"
  using assms
  by (cases rule: move.cases; cases "shake a"; cases "wire a")
     (auto simp: in_order_def passes_def Lock_def Unlock_def RLock_def split: if_splits)

lemma moves_in_order:
  assumes "(move True)\<^sup>*\<^sup>* a b" and "in_order a"
  shows "in_order b \<and> session b = session a"
  using assms
proof (induction rule: rtranclp_induct)
  case base
  then show ?case by simp
next
  case (step y z)
  then show ?case using move_in_order by metis
qed

text \<open>
  C7 (as stated): the claim is that the first frame written after a dial is never
  a Heartbeat although the pacemaker is started before Identify or Resume is sent.
  With a \<^verbatim>\<open>Heartbeat\<close> that bypasses the gate, as section 4.4 of the specification
  has it, the pacemaker started by \<^verbatim>\<open>start\<close> can pace before \<^verbatim>\<open>start\<close> calls
  \<^verbatim>\<open>Identify\<close>: on a fresh gateway the frames written are then Heartbeat, Identify.
\<close>

theorem heartbeat_first_counterexample:
  "(move False)\<^sup>*\<^sup>* (after_dial [])
      \<lparr>gate = \<lparr>writer = True, readers = 0\<rparr>, wire = [HeartbeatFrame, IdentifyFrame],
       session = [], shake = AwaitReady, pace = Idle\<rparr>"
proof -
  let ?a0 = "after_dial []"
  let ?a1 = "?a0\<lparr>gate := \<lparr>writer = True, readers = 0\<rparr>, shake := AwaitHello\<rparr>"
  let ?a2 = "?a1\<lparr>shake := Spawning\<rparr>"
  let ?a3 = "?a2\<lparr>shake := Authenticating, pace := Beating\<rparr>"
  let ?a4 = "?a3\<lparr>wire := wire ?a3 @ [HeartbeatFrame], pace := Idle\<rparr>"
  let ?a5 = "?a4\<lparr>wire := wire ?a4 @ [first_frame (session ?a4)], shake := AwaitReady\<rparr>"
  have "move False ?a0 ?a1"
    by (rule move.lock) (simp_all add: after_dial_def Lock_def)
  moreover have "move False ?a1 ?a2"
    by (rule move.hello) (simp add: after_dial_def)
  moreover have "move False ?a2 ?a3"
    by (rule move.spawn) (simp add: after_dial_def)
  moreover have "move False ?a3 ?a4"
    by (rule move.beat) (simp_all add: after_dial_def passes_def)
  moreover have "move False ?a4 ?a5"
    by (rule move.authenticate) (simp add: after_dial_def)
  ultimately have "(move False)\<^sup>*\<^sup>* ?a0 ?a5"
    by (meson rtranclp.rtrancl_into_rtrancl rtranclp.rtrancl_refl)
  then show ?thesis
    by (simp add: after_dial_def first_frame_def)
qed

text \<open>
  C7 (amended): when \<^verbatim>\<open>Heartbeat\<close> takes the gate in read mode, as \<^verbatim>\<open>Send\<close> does, then
  in every state that \<^verbatim>\<open>Start\<close> and the pacemaker it starts can reach after a dial,
  whatever the order of their steps, the first frame written, if any, is Identify
  when the session id is empty and Resume otherwise.
\<close>

theorem first_frame_when_gated:
  "(move True)\<^sup>*\<^sup>* (after_dial s) a \<longrightarrow>
     wire a = [] \<or> hd (wire a) = (if s = [] then IdentifyFrame else ResumeFrame)"
proof
  assume "(move True)\<^sup>*\<^sup>* (after_dial s) a"
  moreover have "in_order (after_dial s)"
    by (simp add: in_order_def after_dial_def)
  ultimately have "in_order a \<and> session a = session (after_dial s)"
    by (rule moves_in_order)
  then show "wire a = [] \<or> hd (wire a) = (if s = [] then IdentifyFrame else ResumeFrame)"
    by (cases "wire a") (simp_all add: in_order_def after_dial_def first_frame_def)
qed

text \<open>
  A resumed session whose heartbeats take the gate: the pacemaker is started, the
  handshake sends Resume and completes, and only then does the heartbeat pass.
\<close>

theorem first_frame_when_gated_witness:
  "(move True)\<^sup>*\<^sup>* (after_dial ''S1'')
      \<lparr>gate = \<lparr>writer = False, readers = 0\<rparr>, wire = [ResumeFrame, HeartbeatFrame],
       session = ''S1'', shake = Started, pace = Idle\<rparr>
   \<and> hd [ResumeFrame, HeartbeatFrame] = ResumeFrame"
proof -
  let ?a0 = "after_dial ''S1''"
  let ?a1 = "?a0\<lparr>gate := \<lparr>writer = True, readers = 0\<rparr>, shake := AwaitHello\<rparr>"
  let ?a2 = "?a1\<lparr>shake := Spawning\<rparr>"
  let ?a3 = "?a2\<lparr>shake := Authenticating, pace := Beating\<rparr>"
  let ?a4 = "?a3\<lparr>wire := wire ?a3 @ [first_frame (session ?a3)], shake := AwaitReady\<rparr>"
  let ?a5 = "?a4\<lparr>gate := \<lparr>writer = False, readers = 0\<rparr>, shake := Started\<rparr>"
  let ?a6 = "?a5\<lparr>wire := wire ?a5 @ [HeartbeatFrame], pace := Idle\<rparr>"
  have "move True ?a0 ?a1"
    by (rule move.lock) (simp_all add: after_dial_def Lock_def)
  moreover have "move True ?a1 ?a2"
    by (rule move.hello) (simp add: after_dial_def)
  moreover have "move True ?a2 ?a3"
    by (rule move.spawn) (simp add: after_dial_def)
  moreover have "move True ?a3 ?a4"
    by (rule move.authenticate) (simp add: after_dial_def)
  moreover have "move True ?a4 ?a5"
    by (rule move.ready) (simp_all add: after_dial_def Unlock_def)
  moreover have "move True ?a5 ?a6"
    by (rule move.beat) (simp_all add: after_dial_def passes_def RLock_def)
  ultimately have "(move True)\<^sup>*\<^sup>* ?a0 ?a6"
    by (meson rtranclp.rtrancl_into_rtrancl rtranclp.rtrancl_refl)
  then have run: "(move True)\<^sup>*\<^sup>* (after_dial ''S1'')
      \<lparr>gate = \<lparr>writer = False, readers = 0\<rparr>, wire = [ResumeFrame, HeartbeatFrame],
       session = ''S1'', shake = Started, pace = Idle\<rparr>"
    by (simp add: after_dial_def first_frame_def)
  with first_frame_when_gated [of "''S1''"
      "\<lparr>gate = \<lparr>writer = False, readers = 0\<rparr>, wire = [ResumeFrame, HeartbeatFrame],
        session = ''S1'', shake = Started, pace = Idle\<rparr>"]
  show ?thesis
    by simp
qed

end
